theory Spec2Isabelle
  imports Complex_Main "HOL-Library.Word"
begin

text \<open>
  A model of the route handlers of the invoice chat application: the credentials
  provider and sign-in callback, the chat routes, the similarity search, the invoice
  search, the upload route and the dashboard. Each handler is a function of its request,
  of the database and of whatever it reads from outside (random draws, replies of other
  services, generated identifiers), and returns its reply with the database it leaves.
\<close>

section \<open>Strings, JSON values and HTTP responses\<close>

text \<open>
  A JavaScript string is a sequence of UTF-16 code units. The rupee, euro and pound
  signs that the dashboard strips from amounts are single code units, so strings are
  lists of 16-bit words; \<open>utf16\<close> writes an ASCII literal of the source.
\<close>

type_synonym jsstring = "16 word list"

definition utf16 :: "string \<Rightarrow> jsstring" where
  "utf16 s = map (\<lambda>c. of_nat (of_char c)) s"

text \<open>\<open>String.prototype.includes\<close>: the needle occurs at some position of the text.\<close>

fun str_includes :: "'a list \<Rightarrow> 'a list \<Rightarrow> bool" where
  "str_includes [] needle = (needle = [])"
| "str_includes (c # cs) needle =
     (take (length needle) (c # cs) = needle \<or> str_includes cs needle)"

text \<open>
  JavaScript numbers are modelled as real numbers: the rounding of IEEE doubles, the
  infinities and NaN arithmetic are outside the model. Where a library function yields
  NaN (\<open>parseFloat\<close>) the model yields \<open>None\<close>. An object lists its keys with
  their values, each key once, as a parsed JSON document has them.
\<close>

datatype json =
    JNull
  | JBool bool
  | JNum real
  | JStr jsstring
  | JArr "json list"
  | JObj "(jsstring \<times> json) list"

text \<open>Truthiness of a value, as \<open>if (v)\<close>, \<open>!v\<close> and \<open>v || w\<close> test it.\<close>

fun truthy :: "json \<Rightarrow> bool" where
  "truthy JNull = False"
| "truthy (JBool b) = b"
| "truthy (JNum x) = (x \<noteq> 0)"
| "truthy (JStr s) = (s \<noteq> [])"
| "truthy (JArr xs) = True"
| "truthy (JObj kvs) = True"

text \<open>
  Reading a property \<open>v[k]\<close> for the data keys the handlers ask for; \<open>None\<close> is
  \<open>undefined\<close>. The keys asked for are never \<open>length\<close> or an index, so only an
  object has them. Reading a property of \<open>null\<close> throws; callers test for that first.
\<close>

fun get_prop :: "json \<Rightarrow> jsstring \<Rightarrow> json option" where
  "get_prop (JObj kvs) k = map_of kvs k"
| "get_prop v k = None"

fun truthy_opt :: "json option \<Rightarrow> bool" where
  "truthy_opt None = False"
| "truthy_opt (Some v) = truthy v"

text \<open>
  A response is the plain-text body of \<open>new Response(text, {status})\<close>, the JSON
  body of an error reply with its status, or the payload of a reply built without a
  status, which is sent as 200.
\<close>

datatype ('e, 'a) response =
    Plain nat jsstring
  | JsonError nat 'e
  | Success 'a

fun status_of :: "('e, 'a) response \<Rightarrow> nat" where
  "status_of (Plain n t) = n"
| "status_of (JsonError n e) = n"
| "status_of (Success x) = 200"

section \<open>The database\<close>

text \<open>
  The tables the handlers read and write, with the columns they use. Every call of the
  ORM throws when the database cannot be reached: \<open>db_error\<close> holds the message of
  that error, and a call returns \<open>Inl\<close> of the message instead of its result.
\<close>

record user =
  user_id :: jsstring
  user_email :: jsstring
  user_name :: "jsstring option"
  passwordHash :: "jsstring option"

record account =
  acc_userId :: jsstring
  acc_provider :: jsstring

record chatSession =
  chat_id :: jsstring
  chat_userId :: jsstring
  chat_title :: jsstring

record message =
  msg_chatId :: jsstring
  msg_role :: jsstring
  msg_content :: jsstring

record invoice =
  inv_id :: jsstring
  inv_userId :: jsstring
  inv_filename :: jsstring
  inv_status :: jsstring
  extractedData :: json
  classifiedData :: json
  embeddings :: "jsstring option"
  createdAt :: int

record formatted_result =
  res_id :: jsstring
  res_filename :: jsstring
  relevance_score :: real
  matched_content :: jsstring
  extracted_data :: json

record invoiceSearch =
  search_userId :: jsstring
  search_query :: jsstring
  search_results :: "formatted_result list"

record db =
  db_error :: "jsstring option"
  users :: "user list"
  accounts :: "account list"
  chatSessions :: "chatSession list"
  messages :: "message list"
  invoices :: "invoice list"
  invoiceSearches :: "invoiceSearch list"

definition prisma :: "db \<Rightarrow> 'a \<Rightarrow> jsstring + 'a" where
  "prisma d r = (case db_error d of Some m \<Rightarrow> Inl m | None \<Rightarrow> Inr r)"

definition user_findUnique :: "db \<Rightarrow> jsstring \<Rightarrow> jsstring + user option" where
  "user_findUnique d e = prisma d (find (\<lambda>u. user_email u = e) (users d))"

text \<open>\<open>findMany\<close> with \<open>orderBy: {createdAt: 'desc'}\<close>: newest first.\<close>

definition invoice_findMany_desc :: "db \<Rightarrow> (invoice \<Rightarrow> bool) \<Rightarrow> jsstring + invoice list" where
  "invoice_findMany_desc d P = prisma d (sort_key (\<lambda>i. - createdAt i) (filter P (invoices d)))"

definition processed :: jsstring where
  "processed = utf16 ''processed''"

section \<open>Dashboard: \<open>GET /api/dashboard\<close>\<close>


text \<open>
  The character class of \<open>amount.replace(/[\<dots>,\s]/g, '')\<close>: the rupee, dollar, euro
  and pound signs, the comma, and \<open>\s\<close>, which is white space and line terminators.
\<close>

definition is_space :: "16 word \<Rightarrow> bool" where
  "is_space c \<longleftrightarrow>
     (0x09 \<le> c \<and> c \<le> 0x0D) \<or> c = 0x20 \<or> c = 0xA0 \<or> c = 0x1680 \<or>
     (0x2000 \<le> c \<and> c \<le> 0x200A) \<or> c = 0x2028 \<or> c = 0x2029 \<or> c = 0x202F \<or>
     c = 0x205F \<or> c = 0x3000 \<or> c = 0xFEFF"









section \<open>Authentication: the credentials provider and the sign-in callback\<close>

text \<open>
  The form fields of a credentials login; a field that was not sent is \<open>undefined\<close>.
  The environment holds the optional demo settings.
\<close>

record credentials =
  cred_email :: "jsstring option"
  cred_password :: "jsstring option"

record env =
  DEMO_EMAIL :: "jsstring option"
  DEMO_PASSWORD :: "jsstring option"

record auth_user =
  au_id :: jsstring
  au_name :: "jsstring option"
  au_email :: jsstring

text \<open>\<open>process.env.X || dflt\<close>: an unset or empty variable gives the default.\<close>

definition env_or :: "jsstring option \<Rightarrow> jsstring \<Rightarrow> jsstring" where
  "env_or v dflt = (case v of None \<Rightarrow> dflt | Some s \<Rightarrow> if s = [] then dflt else s)"

definition demoEmail :: "env \<Rightarrow> jsstring" where
  "demoEmail ev = env_or (DEMO_EMAIL ev) (utf16 ''demo@chat.app'')"

definition demoPassword :: "env \<Rightarrow> jsstring" where
  "demoPassword ev = env_or (DEMO_PASSWORD ev) (utf16 ''demo1234'')"

definition demo_user :: "env \<Rightarrow> auth_user" where
  "demo_user ev = \<lparr> au_id = utf16 ''demo-user-id'', au_name = Some (utf16 ''Demo User''),
     au_email = demoEmail ev \<rparr>"

text \<open>
  \<open>authorize\<close>. \<open>compare\<close> is \<open>bcrypt.compare\<close>. The lookup with an
  \<open>undefined\<close> email and the comparison with an \<open>undefined\<close> password throw, as a
  failing database does; the \<open>catch\<close> turns each into \<open>null\<close>.
\<close>

definition authorize ::
  "env \<Rightarrow> (jsstring \<Rightarrow> jsstring \<Rightarrow> bool) \<Rightarrow> credentials \<Rightarrow> db \<Rightarrow> auth_user option" where
  "authorize ev compare creds d =
     (if cred_email creds = Some (demoEmail ev) \<and> cred_password creds = Some (demoPassword ev)
      then Some (demo_user ev)
      else
        (case cred_email creds of
           None \<Rightarrow> None
         | Some email \<Rightarrow>
             (case user_findUnique d email of
                Inl err \<Rightarrow> None
              | Inr None \<Rightarrow> None
              | Inr (Some u) \<Rightarrow>
                  (case passwordHash u of
                     None \<Rightarrow> None
                   | Some h \<Rightarrow>
                       if h = [] then None
                       else
                         (case cred_password creds of
                            None \<Rightarrow> None
                          | Some password \<Rightarrow>
                              if compare password h
                              then Some \<lparr> au_id = user_id u, au_name = user_name u,
                                     au_email = user_email u \<rparr>
                              else None)))))"

text \<open>\<open>findUnique\<close> with \<open>include: {accounts: true}\<close>: the user with its accounts.\<close>

definition user_findUnique_accounts ::
  "db \<Rightarrow> jsstring \<Rightarrow> jsstring + (user \<times> account list) option" where
  "user_findUnique_accounts d e =
     prisma d (map_option (\<lambda>u. (u, filter (\<lambda>a. acc_userId a = user_id u) (accounts d)))
                 (find (\<lambda>u. user_email u = e) (users d)))"

text \<open>
  The \<open>signIn\<close> callback, given the provider of the account and the email of the
  user signing in. A thrown error that leaves the callback would be \<open>Inl\<close>.
\<close>

definition signIn :: "jsstring option \<Rightarrow> jsstring option \<Rightarrow> db \<Rightarrow> jsstring + bool" where
  "signIn provider email d =
     (if provider = Some (utf16 ''google'') then
        (case email of
           None \<Rightarrow> Inr True
         | Some e \<Rightarrow>
             (case user_findUnique_accounts d e of
                Inl err \<Rightarrow> Inr True
              | Inr None \<Rightarrow> Inr True
              | Inr (Some (existingUser, accs)) \<Rightarrow>
                  if list_ex (\<lambda>acc. acc_provider acc = utf16 ''google'') accs
                  then Inr True
                  else Inr True))
      else Inr True)"

section \<open>Chats: \<open>POST /api/chat\<close> and \<open>DELETE /api/chats/:id\<close>\<close>

definition chatSession_findFirst ::
  "db \<Rightarrow> jsstring \<Rightarrow> jsstring \<Rightarrow> jsstring + chatSession option" where
  "chatSession_findFirst d cid uid =
     prisma d (find (\<lambda>c. chat_id c = cid \<and> chat_userId c = uid) (chatSessions d))"

definition user_create :: "db \<Rightarrow> user \<Rightarrow> jsstring + db" where
  "user_create d u = prisma d (d\<lparr>users := users d @ [u]\<rparr>)"

definition chatSession_create :: "db \<Rightarrow> chatSession \<Rightarrow> jsstring + db" where
  "chatSession_create d c = prisma d (d\<lparr>chatSessions := chatSessions d @ [c]\<rparr>)"

definition message_create :: "db \<Rightarrow> message \<Rightarrow> jsstring + db" where
  "message_create d m = prisma d (d\<lparr>messages := messages d @ [m]\<rparr>)"

definition message_deleteMany :: "db \<Rightarrow> jsstring \<Rightarrow> jsstring + db" where
  "message_deleteMany d cid =
     prisma d (d\<lparr>messages := filter (\<lambda>m. msg_chatId m \<noteq> cid) (messages d)\<rparr>)"

text \<open>\<open>delete\<close> throws when no record has the id.\<close>

definition chatSession_delete :: "db \<Rightarrow> jsstring \<Rightarrow> jsstring + db" where
  "chatSession_delete d cid =
     (if list_ex (\<lambda>c. chat_id c = cid) (chatSessions d)
      then prisma d (d\<lparr>chatSessions := filter (\<lambda>c. chat_id c \<noteq> cid) (chatSessions d)\<rparr>)
      else Inl (utf16 ''Record to delete does not exist.''))"

subsection \<open>Deleting a chat\<close>

text \<open>
  The handler returns its reply and the database it leaves. An error thrown by the
  second deletion leaves the messages deleted, as the two calls are not one transaction.
\<close>

definition DELETE_chat ::
  "jsstring option \<Rightarrow> jsstring \<Rightarrow> db \<Rightarrow> (jsstring, bool) response \<times> db" where
  "DELETE_chat session_email chatId d =
     (case session_email of
        None \<Rightarrow> (JsonError 401 (utf16 ''Unauthorized''), d)
      | Some e \<Rightarrow>
          if e = [] then (JsonError 401 (utf16 ''Unauthorized''), d)
          else
            (case user_findUnique d e of
               Inl err \<Rightarrow> (JsonError 500 (utf16 ''Failed to delete chat''), d)
             | Inr None \<Rightarrow> (JsonError 404 (utf16 ''User not found''), d)
             | Inr (Some u) \<Rightarrow>
                 (case chatSession_findFirst d chatId (user_id u) of
                    Inl err \<Rightarrow> (JsonError 500 (utf16 ''Failed to delete chat''), d)
                  | Inr None \<Rightarrow> (JsonError 404 (utf16 ''Chat not found''), d)
                  | Inr (Some chat) \<Rightarrow>
                      (case message_deleteMany d chatId of
                         Inl err \<Rightarrow> (JsonError 500 (utf16 ''Failed to delete chat''), d)
                       | Inr d1 \<Rightarrow>
                           (case chatSession_delete d1 chatId of
                              Inl err \<Rightarrow> (JsonError 500 (utf16 ''Failed to delete chat''), d1)
                            | Inr d2 \<Rightarrow> (Success True, d2))))))"

subsection \<open>Posting a prompt\<close>

text \<open>
  The identifiers that the database and \<open>crypto.randomUUID\<close> generate during a
  request are inputs of the handler.
\<close>

record new_ids =
  new_userId :: jsstring
  new_chatId :: jsstring
  new_messageId :: jsstring

text \<open>What the stream closes over: the chat, the message id and the generated text.\<close>

record stream_ctx =
  sc_chatId :: jsstring
  sc_messageId :: jsstring
  sc_text :: jsstring

text \<open>\<open>a || b\<close> on strings.\<close>

definition str_or :: "jsstring \<Rightarrow> jsstring \<Rightarrow> jsstring" where
  "str_or a b = (if a = [] then b else a)"

text \<open>
  "Ensure user exists": the user of the session email, created when there is none.
\<close>

definition ensure_user ::
  "new_ids \<Rightarrow> jsstring \<Rightarrow> jsstring option \<Rightarrow> db \<Rightarrow> jsstring + (user \<times> db)" where
  "ensure_user ids e session_name d =
     (case user_findUnique d e of
        Inl err \<Rightarrow> Inl err
      | Inr (Some u) \<Rightarrow> Inr (u, d)
      | Inr None \<Rightarrow>
          (let u = \<lparr> user_id = new_userId ids, user_email = e,
                     user_name = Some (str_or (case session_name of None \<Rightarrow> [] | Some n \<Rightarrow> n)
                                        (utf16 ''Demo User'')),
                     passwordHash = Some [] \<rparr>
           in case user_create d u of
                Inl err \<Rightarrow> Inl err
              | Inr d1 \<Rightarrow> Inr (u, d1)))"

text \<open>
  "Ensure chat session exists": the chat of that id owned by the user, looked up only
  for a truthy id, and otherwise a new chat titled from the prompt.
\<close>

definition ensure_chat ::
  "new_ids \<Rightarrow> jsstring option \<Rightarrow> jsstring \<Rightarrow> user \<Rightarrow> db \<Rightarrow> jsstring + (chatSession \<times> db)" where
  "ensure_chat ids chatId p u d =
     (case (case chatId of
              None \<Rightarrow> Inr None
            | Some cid \<Rightarrow>
                if cid = [] then Inr None else chatSession_findFirst d cid (user_id u)) of
        Inl err \<Rightarrow> Inl err
      | Inr (Some chat) \<Rightarrow> Inr (chat, d)
      | Inr None \<Rightarrow>
          (let chat = \<lparr> chat_id = new_chatId ids, chat_userId = user_id u,
                        chat_title = str_or (take 32 p) (utf16 ''New chat'') \<rparr>
           in case chatSession_create d chat of
                Inl err \<Rightarrow> Inl err
              | Inr d1 \<Rightarrow> Inr (chat, d1)))"

text \<open>
  The handler up to the point where it returns the streaming response. The chat id of
  the request is a string or absent, as the client sends it; the prompt is any JSON value
  or absent. Before the prompt is validated the handler logs \<open>prompt?.substring(0, 50)\<close>:
  on \<open>null\<close> and on an absent prompt the call is skipped, on a string it succeeds, and
  on any other value \<open>substring\<close> is no function, so a TypeError is thrown.
  \<open>getHardcodedResponse\<close> stands for the response generation, which calls external
  services and catches their failures. The log line and the database calls are outside
  any \<open>try\<close>: an error there rejects the handler, which the framework answers with
  500.
\<close>

definition POST_chat ::
  "(jsstring \<Rightarrow> jsstring) \<Rightarrow> new_ids \<Rightarrow> jsstring option \<Rightarrow> jsstring option \<Rightarrow>
     jsstring option \<Rightarrow> json option \<Rightarrow> db \<Rightarrow> (jsstring, stream_ctx) response \<times> db" where
  "POST_chat getHardcodedResponse ids session_email session_name chatId prompt d =
     (case session_email of
        None \<Rightarrow> (Plain 401 (utf16 ''Unauthorized''), d)
      | Some e \<Rightarrow>
          if e = [] then (Plain 401 (utf16 ''Unauthorized''), d)
          else
            (case prompt of
               None \<Rightarrow> (Plain 400 (utf16 ''Invalid prompt''), d)
             | Some JNull \<Rightarrow> (Plain 400 (utf16 ''Invalid prompt''), d)
             | Some (JStr p) \<Rightarrow>
                 if p = [] then (Plain 400 (utf16 ''Invalid prompt''), d)
                 else
                   (case ensure_user ids e session_name d of
                      Inl err \<Rightarrow> (Plain 500 (utf16 ''Internal Server Error''), d)
                    | Inr (u, d1) \<Rightarrow>
                        (case ensure_chat ids chatId p u d1 of
                           Inl err \<Rightarrow> (Plain 500 (utf16 ''Internal Server Error''), d1)
                         | Inr (chat, d2) \<Rightarrow>
                             (case message_create d2
                                     \<lparr> msg_chatId = chat_id chat, msg_role = utf16 ''user'',
                                       msg_content = p \<rparr> of
                                Inl err \<Rightarrow> (Plain 500 (utf16 ''Internal Server Error''), d2)
                              | Inr d3 \<Rightarrow>
                                  (Success \<lparr> sc_chatId = chat_id chat,
                                             sc_messageId = new_messageId ids,
                                             sc_text = getHardcodedResponse p \<rparr>, d3))))
             | Some other \<Rightarrow> (Plain 500 (utf16 ''Internal Server Error''), d)))"

subsection \<open>The event stream\<close>

datatype frame =
    Start jsstring jsstring
  | Chunk jsstring jsstring
  | Done jsstring jsstring jsstring
  | ErrorFrame jsstring jsstring

record stream_state =
  enqueued :: "frame list"
  fullText :: jsstring

text \<open>The \<open>for\<close> loop over the positions of the generated text.\<close>

function stream_loop :: "jsstring \<Rightarrow> jsstring \<Rightarrow> nat \<Rightarrow> stream_state \<Rightarrow> stream_state" where
  "stream_loop chatId hardcodedResponse i st =
     (if i < length hardcodedResponse then
        stream_loop chatId hardcodedResponse (Suc i)
          \<lparr> enqueued = enqueued st @ [Chunk [hardcodedResponse ! i] chatId],
            fullText = fullText st @ [hardcodedResponse ! i] \<rparr>
      else st)"
  by pat_completeness auto
termination
  by (relation "measure (\<lambda>(chatId, hardcodedResponse, i, st). length hardcodedResponse - i)") auto

declare stream_loop.simps [simp del]

text \<open>
  The \<open>start\<close> callback of the stream, run against the database as it is when the
  assistant message is saved. It returns the frames enqueued before the stream closes
  and the database it leaves. The pacing delay between chunks is not modelled.
\<close>

definition stream_start :: "stream_ctx \<Rightarrow> db \<Rightarrow> frame list \<times> db" where
  "stream_start ctx d =
     (let st0 = \<lparr> enqueued = [Start (sc_chatId ctx) (sc_messageId ctx)], fullText = [] \<rparr>;
          st1 = stream_loop (sc_chatId ctx) (sc_text ctx) 0 st0
      in case message_create d \<lparr> msg_chatId = sc_chatId ctx, msg_role = utf16 ''assistant'',
                                  msg_content = fullText st1 \<rparr> of
           Inl err \<Rightarrow>
             (enqueued st1 @ [ErrorFrame (utf16 ''Failed to process message'') err], d)
         | Inr d' \<Rightarrow>
             (enqueued st1 @ [Done (sc_messageId ctx) (fullText st1) (sc_chatId ctx)], d'))"

text \<open>The content of the chunk frames of a stream, in order.\<close>

fun chunk_contents :: "frame list \<Rightarrow> jsstring list" where
  "chunk_contents [] = []"
| "chunk_contents (Chunk content chatId # fs) = content # chunk_contents fs"
| "chunk_contents (f # fs) = chunk_contents fs"

section \<open>Similarity search in the chat route\<close>

text \<open>The loop of \<open>cosineSimilarity\<close>, with its three running sums.\<close>

function cosine_loop ::
  "real list \<Rightarrow> real list \<Rightarrow> nat \<Rightarrow> real \<times> real \<times> real \<Rightarrow> real \<times> real \<times> real" where
  "cosine_loop vecA vecB i (dotProduct, normA, normB) =
     (if i < length vecA then
        cosine_loop vecA vecB (Suc i)
          (dotProduct + vecA ! i * vecB ! i, normA + vecA ! i * vecA ! i,
           normB + vecB ! i * vecB ! i)
      else (dotProduct, normA, normB))"
  by pat_completeness auto
termination
  by (relation "measure (\<lambda>(vecA, vecB, i, acc). length vecA - i)") auto

declare cosine_loop.simps [simp del]

definition cosineSimilarity :: "real list \<Rightarrow> real list \<Rightarrow> jsstring + real" where
  "cosineSimilarity vecA vecB =
     (if length vecA \<noteq> length vecB then Inl (utf16 ''Vectors must have same length'')
      else
        (case cosine_loop vecA vecB 0 (0, 0, 0) of
           (dotProduct, normA, normB) \<Rightarrow>
             if normA = 0 \<or> normB = 0 then Inr 0
             else Inr (dotProduct / (sqrt normA * sqrt normB))))"

text \<open>
  The glossary's definition, word for word: the dot product divided by the product of
  the magnitudes. The quotient of JavaScript by zero is NaN or an infinity, which is
  no number of the model.
\<close>

definition dot_product :: "real list \<Rightarrow> real list \<Rightarrow> real" where
  "dot_product a b = sum_list (map (\<lambda>(x, y). x * y) (zip a b))"

definition magnitude :: "real list \<Rightarrow> real" where
  "magnitude a = sqrt (sum_list (map (\<lambda>x. x * x) a))"

definition js_divide :: "real \<Rightarrow> real \<Rightarrow> real option" where
  "js_divide x y = (if y = 0 then None else Some (x / y))"

definition cosine_by_glossary :: "real list \<Rightarrow> real list \<Rightarrow> real option" where
  "cosine_by_glossary a b = js_divide (dot_product a b) (magnitude a * magnitude b)"

record scored_invoice =
  scored :: invoice
  similarity_score :: real

text \<open>\<open>findMany\<close> without an order: the rows as stored.\<close>

definition invoice_findMany :: "db \<Rightarrow> (invoice \<Rightarrow> bool) \<Rightarrow> jsstring + invoice list" where
  "invoice_findMany d P = prisma d (filter P (invoices d))"

text \<open>
  The body of the \<open>map\<close> callback of \<open>findSimilarInvoices\<close>: \<open>None\<close> is the
  \<open>null\<close> of its \<open>catch\<close>. \<open>JSON_parse\<close> is \<open>JSON.parse\<close> on a stored
  embeddings string, which the upload route writes as a stringified array of numbers:
  \<open>None\<close> when it throws, the array otherwise. Parsing the text of \<open>null\<close> gives
  \<open>null\<close>, whose \<open>length\<close> cannot be read.
\<close>

definition score_invoice ::
  "(jsstring \<Rightarrow> real list option) \<Rightarrow> real list \<Rightarrow> invoice \<Rightarrow> scored_invoice option" where
  "score_invoice JSON_parse queryEmbedding invoice =
     (case embeddings invoice of
        None \<Rightarrow> None
      | Some text \<Rightarrow>
          (case JSON_parse text of
             None \<Rightarrow> None
           | Some invoiceEmbedding \<Rightarrow>
               (case cosineSimilarity queryEmbedding invoiceEmbedding of
                  Inl err \<Rightarrow> None
                | Inr similarity \<Rightarrow> Some \<lparr> scored = invoice, similarity_score = similarity \<rparr>)))"

text \<open>
  \<open>Array.prototype.sort\<close> with the comparator \<open>b.s - a.s\<close> is a stable sort by
  descending score, as is \<open>sort_key\<close> on the negated score.
\<close>

definition findSimilarInvoices ::
  "(jsstring \<Rightarrow> real list option) \<Rightarrow> real list \<Rightarrow> jsstring \<Rightarrow> db \<Rightarrow>
     jsstring + scored_invoice list" where
  "findSimilarInvoices JSON_parse queryEmbedding userId d =
     (case invoice_findMany d
             (\<lambda>i. inv_userId i = userId \<and> inv_status i = processed \<and> embeddings i \<noteq> None) of
        Inl err \<Rightarrow> Inl err
      | Inr invs \<Rightarrow>
          (let similarities = List.map_filter (score_invoice JSON_parse queryEmbedding) invs
           in Inr (take 10 (sort_key (\<lambda>s. - similarity_score s) similarities))))"

section \<open>Search: \<open>GET /api/invoices/search\<close>\<close>

text \<open>
  The score of one invoice. \<open>mockQueryEmbedding\<close> holds the draws of
  \<open>Math.random() - 0.5\<close>; \<open>JSON_parse\<close> gives the stored array, or \<open>None\<close> when
  parsing throws or yields no array; \<open>stringify_lower\<close> is
  \<open>JSON.stringify(\<dots>).toLowerCase()\<close>. A position past the end of the draws reads
  \<open>undefined\<close>, which \<open>|| 0\<close> turns into zero.
\<close>

definition draw_at :: "real list \<Rightarrow> nat \<Rightarrow> real" where
  "draw_at mockQueryEmbedding i =
     (if i < length mockQueryEmbedding then mockQueryEmbedding ! i else 0)"

definition search_similarity ::
  "(jsstring \<Rightarrow> real list option) \<Rightarrow> (json \<Rightarrow> jsstring) \<Rightarrow> real list \<Rightarrow> jsstring \<Rightarrow>
     invoice \<Rightarrow> real" where
  "search_similarity JSON_parse stringify_lower mockQueryEmbedding searchLower invoice =
     (case embeddings invoice of
        None \<Rightarrow> 0
      | Some text \<Rightarrow>
          if text = [] then 0
          else
            (case JSON_parse text of
               None \<Rightarrow> 0
             | Some invoiceEmbeddings \<Rightarrow>
                 (let dotProduct = foldl (\<lambda>sum i. sum + invoiceEmbeddings ! i *
                                            draw_at mockQueryEmbedding i)
                                     0 [0..<length invoiceEmbeddings];
                      invoiceNorm = sqrt (foldl (\<lambda>sum val. sum + val * val) 0 invoiceEmbeddings);
                      queryNorm = sqrt (foldl (\<lambda>sum val. sum + val * val) 0 mockQueryEmbedding);
                      similarity = (if invoiceNorm \<noteq> 0 \<and> queryNorm \<noteq> 0
                                    then dotProduct / (invoiceNorm * queryNorm) else 0);
                      extractedText = stringify_lower
                        (if truthy (extractedData invoice) then extractedData invoice else JObj [])
                  in if str_includes extractedText searchLower then similarity + 0.3
                     else similarity)))"

text \<open>The reply rows: the relevance falls with the position in the result list.\<close>

definition format_result :: "jsstring \<Rightarrow> nat \<Rightarrow> invoice \<Rightarrow> formatted_result" where
  "format_result query index invoice =
     \<lparr> res_id = inv_id invoice, res_filename = inv_filename invoice,
       relevance_score = (if query \<noteq> [] then max 0.1 (1 - real index * 0.1) else 0.8),
       matched_content = utf16 ''Invoice: '' @ inv_filename invoice,
       extracted_data = (if truthy (extractedData invoice) then extractedData invoice else JObj []) \<rparr>"

definition invoiceSearch_create :: "db \<Rightarrow> invoiceSearch \<Rightarrow> jsstring + db" where
  "invoiceSearch_create d s = prisma d (d\<lparr>invoiceSearches := invoiceSearches d @ [s]\<rparr>)"

text \<open>
  The handler. The query parameter is absent or a string; \<open>toLowerCase\<close> is the
  builtin. Inside the scoring nothing of the model throws, so the text-search fallback
  of the source is never entered.
\<close>

definition GET_search ::
  "(jsstring \<Rightarrow> real list option) \<Rightarrow> (json \<Rightarrow> jsstring) \<Rightarrow> (jsstring \<Rightarrow> jsstring) \<Rightarrow>
     real list \<Rightarrow> jsstring option \<Rightarrow> jsstring option \<Rightarrow> db \<Rightarrow>
     (jsstring, formatted_result list) response \<times> db" where
  "GET_search JSON_parse stringify_lower toLowerCase mockQueryEmbedding session_email q d =
     (case session_email of
        None \<Rightarrow> (Plain 401 (utf16 ''Unauthorized''), d)
      | Some e \<Rightarrow>
          if e = [] then (Plain 401 (utf16 ''Unauthorized''), d)
          else
            (let query = (case q of None \<Rightarrow> [] | Some s \<Rightarrow> s) in
             case user_findUnique d e of
               Inl err \<Rightarrow> (JsonError 500 (utf16 ''Search failed''), d)
             | Inr None \<Rightarrow> (JsonError 404 (utf16 ''User not found''), d)
             | Inr (Some u) \<Rightarrow>
                 (case invoice_findMany_desc d
                         (\<lambda>i. inv_userId i = user_id u \<and> inv_status i = processed) of
                    Inl err \<Rightarrow> (JsonError 500 (utf16 ''Search failed''), d)
                  | Inr invs \<Rightarrow>
                      (let searchResults =
                             (if list_ex (\<lambda>c. \<not> is_space c) query then
                                (let scoredInvoices =
                                       map (\<lambda>invoice. (invoice, search_similarity JSON_parse
                                              stringify_lower mockQueryEmbedding
                                              (toLowerCase query) invoice)) invs
                                 in map fst (take 10 (sort_key (\<lambda>item. - snd item)
                                      (filter (\<lambda>item. snd item > 0.1) scoredInvoices))))
                              else invs);
                           formattedResults =
                             map (\<lambda>(index, invoice). format_result query index invoice)
                               (enumerate 0 searchResults)
                       in case invoiceSearch_create d
                                 \<lparr> search_userId = user_id u, search_query = query,
                                   search_results = formattedResults \<rparr> of
                            Inl err \<Rightarrow> (JsonError 500 (utf16 ''Search failed''), d)
                          | Inr d' \<Rightarrow> (Success formattedResults, d')))))"

section \<open>Upload: \<open>POST /api/invoices\<close>\<close>

record upload_file =
  file_name :: jsstring
  file_size :: nat
  file_type :: jsstring

text \<open>
  The reply of the parsing service as the handler reads it: \<open>response.ok\<close>, the
  status as it is printed, the status text, the content type, the body as text, and
  the body as JSON (\<open>Inl\<close> when \<open>response.json()\<close> throws).
\<close>

record service_response =
  resp_ok :: bool
  resp_status :: jsstring
  resp_statusText :: jsstring
  resp_contentType :: "jsstring option"
  resp_text :: jsstring
  resp_json :: "jsstring + json"

text \<open>
  What one request meets outside the handler: whether reading the file throws, the
  outcome of the \<open>fetch\<close> (\<open>Inl\<close> when it rejects), and on the spreadsheet path the
  data assembled from the service logs with its embeddings as text. The assembly
  catches its own failures and falls back to fixed data, so it always has a value.
\<close>

record outside =
  arrayBuffer_error :: "jsstring option"
  fetched :: "jsstring + service_response"
  realProcessedData :: json
  realEmbeddings :: jsstring

record upload_error =
  ue_error :: jsstring
  ue_details :: "jsstring option"
  ue_id :: "jsstring option"
  ue_status :: "jsstring option"

record upload_ok =
  uo_invoice :: "invoice option"
  uo_message :: "jsstring option"

definition is_spreadsheet :: "jsstring option \<Rightarrow> bool" where
  "is_spreadsheet contentType =
     (case contentType of
        None \<Rightarrow> False
      | Some c \<Rightarrow> str_includes c (utf16 ''spreadsheet'') \<or>
                  str_includes c (utf16 ''application/vnd.openxmlformats''))"

text \<open>\<open>a || b\<close> where \<open>a\<close> is a property that may be missing.\<close>

definition prop_or :: "json \<Rightarrow> jsstring \<Rightarrow> json \<Rightarrow> json" where
  "prop_or v k dflt =
     (case get_prop v k of None \<Rightarrow> dflt | Some x \<Rightarrow> if truthy x then x else dflt)"

definition invalid_response :: jsstring where
  "invalid_response = utf16 ''Invalid response from Python service''"

text \<open>
  The message of \<open>new Error(v)\<close>: a string as it is, any other value as
  \<open>String(v)\<close> prints it, which is the parameter \<open>to_text\<close>.
\<close>

definition error_message :: "(json \<Rightarrow> jsstring) \<Rightarrow> json \<Rightarrow> jsstring" where
  "error_message to_text v = (case v of JStr s \<Rightarrow> s | _ \<Rightarrow> to_text v)"

text \<open>
  The update that marks the record processed from a JSON reply. \<open>stringify\<close> is
  \<open>JSON.stringify\<close>.
\<close>

definition processed_from_reply :: "(json \<Rightarrow> jsstring) \<Rightarrow> json \<Rightarrow> invoice \<Rightarrow> invoice" where
  "processed_from_reply stringify pythonResult i =
     i\<lparr> inv_status := processed,
        extractedData := prop_or pythonResult (utf16 ''extracted_data'') pythonResult,
        classifiedData := prop_or pythonResult (utf16 ''classified_data'') pythonResult,
        embeddings :=
          (case get_prop pythonResult (utf16 ''embeddings'') of
             None \<Rightarrow> None
           | Some em \<Rightarrow> if truthy em then Some (stringify em) else None) \<rparr>"

text \<open>
  The innermost \<open>try\<close> block, which reads a reply that is no spreadsheet as JSON:
  \<open>Inl\<close> is the message of the error thrown inside it, \<open>Inr\<close> the update made to
  the record. It throws when the body is no JSON, when the body is \<open>null\<close>, whose
  \<open>error\<close> cannot be read, and when the reply has a truthy \<open>error\<close>, with that
  error as the message.
\<close>

definition read_json_reply ::
  "(json \<Rightarrow> jsstring) \<Rightarrow> (json \<Rightarrow> jsstring) \<Rightarrow> service_response \<Rightarrow>
     jsstring + (invoice \<Rightarrow> invoice)" where
  "read_json_reply to_text stringify r =
     (case resp_json r of
        Inl err \<Rightarrow> Inl err
      | Inr pythonResult \<Rightarrow>
          if pythonResult = JNull
          then Inl (utf16 ''Cannot read properties of null (reading error)'')
          else
            (case get_prop pythonResult (utf16 ''error'') of
               None \<Rightarrow> Inr (processed_from_reply stringify pythonResult)
             | Some err \<Rightarrow>
                 if truthy err then Inl (error_message to_text err)
                 else Inr (processed_from_reply stringify pythonResult)))"

text \<open>
  The inner \<open>try\<close> block: \<open>Inl\<close> is the message of the error it throws, \<open>Inr\<close>
  the message of the success reply, if any, and the update it made to the record. The
  \<open>catch\<close> around the innermost block replaces whatever was thrown there by an error
  with a fixed message.
\<close>

definition service_result ::
  "(json \<Rightarrow> jsstring) \<Rightarrow> (json \<Rightarrow> jsstring) \<Rightarrow> outside \<Rightarrow>
     jsstring + (jsstring option \<times> (invoice \<Rightarrow> invoice))" where
  "service_result to_text stringify w =
     (case fetched w of
        Inl err \<Rightarrow> Inl err
      | Inr r \<Rightarrow>
          if \<not> resp_ok r then
            Inl (utf16 ''Python service returned '' @ resp_status r @ utf16 '': '' @
                 resp_statusText r @ utf16 '' - '' @ resp_text r)
          else if is_spreadsheet (resp_contentType r) then
            Inr (Some (utf16 ''Invoice processed successfully with AI''),
                 \<lambda>i. i\<lparr> inv_status := processed,
                        extractedData := realProcessedData w,
                        classifiedData := realProcessedData w,
                        embeddings := Some (realEmbeddings w) \<rparr>)
          else
            (case read_json_reply to_text stringify r of
               Inl parseError \<Rightarrow> Inl invalid_response
             | Inr change \<Rightarrow> Inr (None, change)))"

text \<open>\<open>update\<close> of the record with that id. The handlers update a record they created.\<close>

definition invoice_update :: "db \<Rightarrow> jsstring \<Rightarrow> (invoice \<Rightarrow> invoice) \<Rightarrow> db" where
  "invoice_update d iid f =
     d\<lparr>invoices := map (\<lambda>i. if inv_id i = iid then f i else i) (invoices d)\<rparr>"

definition encrypted_error :: jsstring where
  "encrypted_error = utf16 ''PDF file is encrypted or password-protected''"

definition encrypted_details :: jsstring where
  "encrypted_details =
     utf16 ''Cannot process encrypted PDFs. Please provide an unprotected PDF file.''"

text \<open>
  The body of a \<open>catch\<close> once the record exists. The source has it twice with the
  same text: after the inner \<open>try\<close> and, for an error thrown outside it, in the outer
  \<open>catch\<close>.
\<close>

definition on_failure ::
  "jsstring \<Rightarrow> jsstring \<Rightarrow> db \<Rightarrow> (upload_error, upload_ok) response \<times> db" where
  "on_failure message iid d =
     (if str_includes message (utf16 ''PDF_ENCRYPTED'') then
        (JsonError 400 \<lparr> ue_error = encrypted_error, ue_details = Some encrypted_details,
                          ue_id = Some iid, ue_status = Some (utf16 ''error'') \<rparr>,
         invoice_update d iid (\<lambda>i. i\<lparr> inv_status := utf16 ''error'',
           extractedData := JObj [(utf16 ''error'', JStr encrypted_error),
                                  (utf16 ''details'', JStr encrypted_details)] \<rparr>))
      else
        (JsonError 500 \<lparr> ue_error = utf16 ''Processing failed'', ue_details = Some message,
                          ue_id = Some iid, ue_status = Some (utf16 ''error'') \<rparr>,
         invoice_update d iid (\<lambda>i. i\<lparr> inv_status := utf16 ''error'',
           extractedData := JObj [(utf16 ''error'', JStr (utf16 ''Processing failed'')),
                                  (utf16 ''details'', JStr message)] \<rparr>)))"

text \<open>
  The handler. The id and the creation time of the new record come from the database.
  After the first lookup succeeds the database stays reachable for the rest of the
  request.
\<close>

definition POST_upload ::
  "(json \<Rightarrow> jsstring) \<Rightarrow> (json \<Rightarrow> jsstring) \<Rightarrow> outside \<Rightarrow> jsstring \<Rightarrow> int \<Rightarrow>
     jsstring option \<Rightarrow> upload_file option \<Rightarrow> db \<Rightarrow>
     (upload_error, upload_ok) response \<times> db" where
  "POST_upload to_text stringify w iid now session_email file d =
     (case session_email of
        None \<Rightarrow> (Plain 401 (utf16 ''Unauthorized''), d)
      | Some e \<Rightarrow>
          if e = [] then (Plain 401 (utf16 ''Unauthorized''), d)
          else
            (case user_findUnique d e of
               Inl err \<Rightarrow>
                 (JsonError 500 \<lparr> ue_error = utf16 ''Upload failed'', ue_details = Some err,
                                   ue_id = None, ue_status = None \<rparr>, d)
             | Inr None \<Rightarrow>
                 (JsonError 404 \<lparr> ue_error = utf16 ''User not found'', ue_details = None,
                                   ue_id = None, ue_status = None \<rparr>, d)
             | Inr (Some u) \<Rightarrow>
                 (case file of
                    None \<Rightarrow>
                      (JsonError 400 \<lparr> ue_error = utf16 ''No file provided'', ue_details = None,
                                        ue_id = None, ue_status = None \<rparr>, d)
                  | Some f \<Rightarrow>
                      (let created = \<lparr> inv_id = iid, inv_userId = user_id u,
                             inv_filename = file_name f, inv_status = utf16 ''processing'',
                             extractedData = JObj
                               [(utf16 ''message'', JStr (utf16
                                   ''Invoice uploaded, sending to AI processing service...'')),
                                (utf16 ''file_size'', JNum (real (file_size f))),
                                (utf16 ''mime_type'', JStr (file_type f))],
                             classifiedData = JNull, embeddings = None, createdAt = now \<rparr>;
                           d1 = d\<lparr>invoices := invoices d @ [created]\<rparr>
                       in case arrayBuffer_error w of
                            Some message \<Rightarrow> on_failure message iid d1
                          | None \<Rightarrow>
                              (case service_result to_text stringify w of
                                 Inl message \<Rightarrow> on_failure message iid d1
                               | Inr (reply_message, change) \<Rightarrow>
                                   (let d2 = invoice_update d1 iid change
                                    in (Success \<lparr> uo_invoice =
                                                    find (\<lambda>i. inv_id i = iid) (invoices d2),
                                                  uo_message = reply_message \<rparr>, d2)))))))"

section \<open>Notions used in the statements\<close>


text \<open>
  Admissible draws of the mock query embedding: 1536 values of \<open>Math.random() - 0.5\<close>,
  each at least \<open>-0.5\<close> and below \<open>0.5\<close>.
\<close>

definition valid_draws :: "real list \<Rightarrow> bool" where
  "valid_draws r \<longleftrightarrow> length r = 1536 \<and> list_all (\<lambda>x. - 0.5 \<le> x \<and> x < 0.5) r"

text \<open>The rows of a success reply; an error reply has none.\<close>

fun results_of :: "('e, 'a list) response \<Rightarrow> 'a list" where
  "results_of (Success xs) = xs"
| "results_of (Plain n t) = []"
| "results_of (JsonError n e) = []"





section \<open>Example data\<close>


definition alice :: user where
  "alice = \<lparr> user_id = utf16 ''u1'', user_email = utf16 ''a@x.io'', user_name = None,
     passwordHash = Some (utf16 ''$2a$hash'') \<rparr>"

definition bob :: user where
  "bob = \<lparr> user_id = utf16 ''u2'', user_email = utf16 ''b@x.io'', user_name = None,
     passwordHash = Some [] \<rparr>"

definition mk_invoice ::
  "string \<Rightarrow> string \<Rightarrow> string \<Rightarrow> json \<Rightarrow> jsstring option \<Rightarrow> int \<Rightarrow> invoice" where
  "mk_invoice i u st ex em t =
     \<lparr> inv_id = utf16 i, inv_userId = utf16 u, inv_filename = utf16 i, inv_status = utf16 st,
       extractedData = ex, classifiedData = JNull, embeddings = em, createdAt = t \<rparr>"

definition inv1 :: invoice where
  "inv1 = mk_invoice ''i1'' ''u1'' ''processed''
     (JObj [(utf16 ''total_amount'', JStr (0x20B9 # utf16 ''7,468.00''))])
     (Some (utf16 ''[1,0]'')) 1"

definition inv2 :: invoice where
  "inv2 = mk_invoice ''i2'' ''u1'' ''processed''
     (JObj [(utf16 ''total_amount'', JStr (utf16 ''Processing Complete''))])
     (Some (utf16 ''[0,1]'')) 2"

definition inv3 :: invoice where
  "inv3 = mk_invoice ''i3'' ''u1'' ''error'' (JObj [(utf16 ''amount'', JNum 5)]) None 3"

definition inv4 :: invoice where
  "inv4 = mk_invoice ''i4'' ''u2'' ''processed'' (JObj [(utf16 ''amount'', JNum 9)])
     (Some (utf16 ''[1,1]'')) 4"

definition inv5 :: invoice where
  "inv5 = mk_invoice ''i5'' ''u1'' ''processed'' JNull (Some (utf16 ''not json'')) 5"

definition chat1 :: chatSession where
  "chat1 = \<lparr> chat_id = utf16 ''c1'', chat_userId = utf16 ''u1'', chat_title = utf16 ''first'' \<rparr>"

definition chat2 :: chatSession where
  "chat2 = \<lparr> chat_id = utf16 ''c2'', chat_userId = utf16 ''u2'', chat_title = utf16 ''second'' \<rparr>"

definition mk_message :: "string \<Rightarrow> string \<Rightarrow> string \<Rightarrow> message" where
  "mk_message c r t = \<lparr> msg_chatId = utf16 c, msg_role = utf16 r, msg_content = utf16 t \<rparr>"

definition demo_db :: db where
  "demo_db = \<lparr> db_error = None, users = [alice, bob], accounts = [],
     chatSessions = [chat1, chat2],
     messages = [mk_message ''c1'' ''user'' ''hi'', mk_message ''c2'' ''user'' ''yo'',
                 mk_message ''c1'' ''assistant'' ''hello''],
     invoices = [inv1, inv2, inv3, inv4], invoiceSearches = [] \<rparr>"

text \<open>The same database when it cannot be reached.\<close>

definition down_db :: db where
  "down_db = demo_db\<lparr>db_error := Some (utf16 ''connection refused'')\<rparr>"

definition demo_env :: env where
  "demo_env = \<lparr> DEMO_EMAIL = None, DEMO_PASSWORD = Some [] \<rparr>"

definition demo_compare :: "jsstring \<Rightarrow> jsstring \<Rightarrow> bool" where
  "demo_compare p h \<longleftrightarrow> p = utf16 ''secret'' \<and> h = utf16 ''$2a$hash''"

definition demo_creds :: credentials where
  "demo_creds = \<lparr> cred_email = Some (utf16 ''demo@chat.app''), cred_password = Some (utf16 ''demo1234'') \<rparr>"

definition alice_creds :: credentials where
  "alice_creds = \<lparr> cred_email = Some (utf16 ''a@x.io''), cred_password = Some (utf16 ''secret'') \<rparr>"

definition bob_creds :: credentials where
  "bob_creds = \<lparr> cred_email = Some (utf16 ''b@x.io''), cred_password = Some (utf16 ''secret'') \<rparr>"

definition demo_ids :: new_ids where
  "demo_ids = \<lparr> new_userId = utf16 ''u9'', new_chatId = utf16 ''c9'',
     new_messageId = utf16 ''m9'' \<rparr>"

definition demo_responder :: "jsstring \<Rightarrow> jsstring" where
  "demo_responder p = utf16 ''Hi''"

text \<open>Stored embeddings that parse, and one that does not.\<close>

definition demo_parse :: "jsstring \<Rightarrow> real list option" where
  "demo_parse t =
     (if t = utf16 ''[1,0]'' then Some [1, 0]
      else if t = utf16 ''[0,1]'' then Some [0, 1]
      else if t = utf16 ''[1,1]'' then Some [1, 1]
      else None)"

definition search_db :: db where
  "search_db = demo_db\<lparr>invoices := [inv1, inv2, inv3, inv4, inv5]\<rparr>"

text \<open>Three sequences of draws, and the search they are tried on.\<close>

definition draws_a :: "real list" where
  "draws_a = 0.3 # 0.4 # replicate 1534 0"

definition draws_b :: "real list" where
  "draws_b = 0.4 # 0.3 # replicate 1534 0"

definition draws_c :: "real list" where
  "draws_c = 0.4 # - 0.3 # replicate 1534 0"

definition demo_search :: "real list \<Rightarrow> jsstring list" where
  "demo_search draws =
     map res_id (results_of (fst (GET_search demo_parse (\<lambda>v. []) (\<lambda>s. s) draws
       (Some (utf16 ''a@x.io'')) (Some (utf16 ''x'')) search_db)))"

text \<open>An upload that the parsing service refuses as encrypted.\<close>

definition locked_reply :: service_response where
  "locked_reply = \<lparr> resp_ok = False, resp_status = utf16 ''400'',
     resp_statusText = utf16 ''Bad Request'', resp_contentType = None,
     resp_text = utf16 ''PDF_ENCRYPTED'' @ utf16 '': password required'',
     resp_json = Inl (utf16 ''Unexpected token'') \<rparr>"

definition locked_world :: outside where
  "locked_world = \<lparr> arrayBuffer_error = None, fetched = Inr locked_reply,
     realProcessedData = JNull, realEmbeddings = [] \<rparr>"

definition locked_message :: jsstring where
  "locked_message = utf16 ''Python service returned '' @ utf16 ''400'' @ utf16 '': '' @
     utf16 ''Bad Request'' @ utf16 '' - '' @ utf16 ''PDF_ENCRYPTED'' @
     utf16 '': password required''"

definition demo_file :: upload_file where
  "demo_file = \<lparr> file_name = utf16 ''locked.pdf'', file_size = 1024,
     file_type = utf16 ''application/pdf'' \<rparr>"






text \<open>An environment that configures its own demo pair.\<close>

definition office_env :: env where
  "office_env = \<lparr> DEMO_EMAIL = Some (utf16 ''boss@corp.io''),
     DEMO_PASSWORD = Some (utf16 ''s3cret'') \<rparr>"

definition office_creds :: credentials where
  "office_creds = \<lparr> cred_email = Some (utf16 ''boss@corp.io''),
     cred_password = Some (utf16 ''s3cret'') \<rparr>"

text \<open>The same refusal, sent as a JSON body with an \<open>error\<close> field and status 200.\<close>

definition json_locked_reply :: service_response where
  "json_locked_reply = \<lparr> resp_ok = True, resp_status = utf16 ''200'',
     resp_statusText = utf16 ''OK'', resp_contentType = Some (utf16 ''application/json''),
     resp_text = [],
     resp_json = Inr (JObj [(utf16 ''error'',
                   JStr (utf16 ''PDF_ENCRYPTED'' @ utf16 '': password required''))]) \<rparr>"

definition json_locked_world :: outside where
  "json_locked_world = \<lparr> arrayBuffer_error = None, fetched = Inr json_locked_reply,
     realProcessedData = JNull, realEmbeddings = [] \<rparr>"

section \<open>Verification\<close>

subsection \<open>Dashboard totals\<close>
















lemma utf16_nonempty: "utf16 ''a@x.io'' \<noteq> []"
  by (simp add: utf16_def)

lemma demo_db_up: "db_error demo_db = None"
  by (simp add: demo_db_def)

lemma find_alice: "find (\<lambda>u. user_email u = utf16 ''a@x.io'') (users demo_db) = Some alice"
  by (simp add: demo_db_def alice_def)





subsection \<open>Authentication\<close>

lemma find_bob: "find (\<lambda>u. user_email u = utf16 ''b@x.io'') (users demo_db) = Some bob"
  by (simp add: demo_db_def alice_def bob_def utf16_def)

lemma find_demo_none:
  "find (\<lambda>u. user_email u = utf16 ''demo@chat.app'') (users demo_db) = None"
  by (simp add: demo_db_def alice_def bob_def utf16_def)

text \<open>
  C3. The demo pair is the one the environment configures: \<open>DEMO_EMAIL\<close> and
  \<open>DEMO_PASSWORD\<close> where they are set and not empty, \<open>demo@chat.app\<close> and
  \<open>demo1234\<close> where they are not. When the submitted email and password are that pair,
  \<open>authorize\<close> returns the demo user, with id \<open>demo-user-id\<close> and the demo email,
  whatever the database holds and also when it cannot be reached. For any other
  submission, a looked-up user without a password hash (absent or empty) gives
  \<open>null\<close>, and \<open>authorize\<close> returns a user exactly when the looked-up user has a
  hash that \<open>compare\<close> accepts for the submitted password; the user returned is that
  row.
\<close>

theorem authorize_demo_and_hash:
  assumes de: "de = (case DEMO_EMAIL ev of
                       None \<Rightarrow> utf16 ''demo@chat.app''
                     | Some x \<Rightarrow> if x = [] then utf16 ''demo@chat.app'' else x)"
    and dp: "dp = (case DEMO_PASSWORD ev of
                     None \<Rightarrow> utf16 ''demo1234''
                   | Some x \<Rightarrow> if x = [] then utf16 ''demo1234'' else x)"
  shows "(cred_email c = Some de \<and> cred_password c = Some dp \<longrightarrow>
      (\<forall>d. authorize ev compare c d =
             Some \<lparr> au_id = utf16 ''demo-user-id'', au_name = Some (utf16 ''Demo User''),
                    au_email = de \<rparr>))
   \<and> (\<not> (cred_email c = Some de \<and> cred_password c = Some dp) \<longrightarrow>
      (\<forall>e u. cred_email c = Some e \<and> user_findUnique d e = Inr (Some u) \<and>
             (passwordHash u = None \<or> passwordHash u = Some []) \<longrightarrow>
             authorize ev compare c d = None)
      \<and> (\<forall>r. authorize ev compare c d = Some r \<longleftrightarrow>
            (\<exists>e p u h. cred_email c = Some e \<and> cred_password c = Some p \<and>
               user_findUnique d e = Inr (Some u) \<and> passwordHash u = Some h \<and> h \<noteq> [] \<and>
               compare p h \<and>
               r = \<lparr> au_id = user_id u, au_name = user_name u, au_email = user_email u \<rparr>)))"
proof -
  have e: "demoEmail ev = de"
    unfolding de by (simp add: demoEmail_def env_or_def)
  have p: "demoPassword ev = dp"
    unfolding dp by (simp add: demoPassword_def env_or_def)
  show ?thesis
  proof (intro conjI impI allI)
    fix d'
    assume "cred_email c = Some de \<and> cred_password c = Some dp"
    then show "authorize ev compare c d' =
             Some \<lparr> au_id = utf16 ''demo-user-id'', au_name = Some (utf16 ''Demo User''),
                    au_email = de \<rparr>"
      by (simp add: authorize_def demo_user_def e p)
  next
    fix e' u
    assume nd: "\<not> (cred_email c = Some de \<and> cred_password c = Some dp)"
      and h: "cred_email c = Some e' \<and> user_findUnique d e' = Inr (Some u) \<and>
               (passwordHash u = None \<or> passwordHash u = Some [])"
    then show "authorize ev compare c d = None"
      by (auto simp add: authorize_def e p)
  next
    fix r
    assume nd: "\<not> (cred_email c = Some de \<and> cred_password c = Some dp)"
    show "authorize ev compare c d = Some r \<longleftrightarrow>
              (\<exists>e p u h. cred_email c = Some e \<and> cred_password c = Some p \<and>
                 user_findUnique d e = Inr (Some u) \<and> passwordHash u = Some h \<and> h \<noteq> [] \<and>
                 compare p h \<and>
                 r = \<lparr> au_id = user_id u, au_name = user_name u, au_email = user_email u \<rparr>)"
      using nd
      by (auto simp add: authorize_def e p split: option.splits sum.splits if_splits)
  qed
qed

theorem authorize_demo_and_hash_witness:
  "authorize office_env demo_compare office_creds down_db =
     Some \<lparr> au_id = utf16 ''demo-user-id'', au_name = Some (utf16 ''Demo User''),
            au_email = utf16 ''boss@corp.io'' \<rparr>
   \<and> authorize office_env demo_compare demo_creds demo_db = None
   \<and> authorize demo_env demo_compare demo_creds (demo_db\<lparr>users := []\<rparr>) =
       Some \<lparr> au_id = utf16 ''demo-user-id'', au_name = Some (utf16 ''Demo User''),
              au_email = utf16 ''demo@chat.app'' \<rparr>
   \<and> authorize demo_env demo_compare bob_creds demo_db = None
   \<and> authorize demo_env demo_compare alice_creds demo_db =
       Some \<lparr> au_id = utf16 ''u1'', au_name = None, au_email = utf16 ''a@x.io'' \<rparr>"
proof -
  have oe: "utf16 ''boss@corp.io'' = (case DEMO_EMAIL office_env of
                       None \<Rightarrow> utf16 ''demo@chat.app''
                     | Some x \<Rightarrow> if x = [] then utf16 ''demo@chat.app'' else x)"
    by (simp add: office_env_def utf16_def)
  have op: "utf16 ''s3cret'' = (case DEMO_PASSWORD office_env of
                     None \<Rightarrow> utf16 ''demo1234''
                   | Some x \<Rightarrow> if x = [] then utf16 ''demo1234'' else x)"
    by (simp add: office_env_def utf16_def)
  have ee: "utf16 ''demo@chat.app'' = (case DEMO_EMAIL demo_env of
                       None \<Rightarrow> utf16 ''demo@chat.app''
                     | Some x \<Rightarrow> if x = [] then utf16 ''demo@chat.app'' else x)"
    by (simp add: demo_env_def)
  have ep: "utf16 ''demo1234'' = (case DEMO_PASSWORD demo_env of
                     None \<Rightarrow> utf16 ''demo1234''
                   | Some x \<Rightarrow> if x = [] then utf16 ''demo1234'' else x)"
    by (simp add: demo_env_def)
  note office = authorize_demo_and_hash [OF oe op, where compare = demo_compare]
  note dflt = authorize_demo_and_hash [OF ee ep, where compare = demo_compare]
  have fb: "user_findUnique demo_db (utf16 ''b@x.io'') = Inr (Some bob)"
    using find_bob by (simp add: user_findUnique_def prisma_def demo_db_def)
  have fa: "user_findUnique demo_db (utf16 ''a@x.io'') = Inr (Some alice)"
    using find_alice by (simp add: user_findUnique_def prisma_def demo_db_def)
  have fd: "user_findUnique demo_db (utf16 ''demo@chat.app'') = Inr None"
    using find_demo_none by (simp add: user_findUnique_def prisma_def demo_db_def)
  have 1: "authorize office_env demo_compare office_creds down_db =
     Some \<lparr> au_id = utf16 ''demo-user-id'', au_name = Some (utf16 ''Demo User''),
            au_email = utf16 ''boss@corp.io'' \<rparr>"
    using office [where c = office_creds] by (simp add: office_creds_def)
  have 2: "authorize office_env demo_compare demo_creds demo_db = None"
  proof -
    have nd: "\<not> (cred_email demo_creds = Some (utf16 ''boss@corp.io'') \<and>
                 cred_password demo_creds = Some (utf16 ''s3cret''))"
      by (simp add: demo_creds_def utf16_def)
    have "\<forall>r. authorize office_env demo_compare demo_creds demo_db \<noteq> Some r"
      using office [where c = demo_creds and d = demo_db] nd fd
      by (simp add: demo_creds_def)
    then show ?thesis by (cases "authorize office_env demo_compare demo_creds demo_db") auto
  qed
  have 3: "authorize demo_env demo_compare demo_creds (demo_db\<lparr>users := []\<rparr>) =
       Some \<lparr> au_id = utf16 ''demo-user-id'', au_name = Some (utf16 ''Demo User''),
              au_email = utf16 ''demo@chat.app'' \<rparr>"
    using dflt [where c = demo_creds] by (simp add: demo_creds_def)
  have 4: "authorize demo_env demo_compare bob_creds demo_db = None"
  proof -
    have nb: "\<not> (cred_email bob_creds = Some (utf16 ''demo@chat.app'') \<and>
                 cred_password bob_creds = Some (utf16 ''demo1234''))"
      by (simp add: bob_creds_def utf16_def)
    show ?thesis
      using dflt [where c = bob_creds and d = demo_db] nb fb
      by (simp add: bob_creds_def bob_def)
  qed
  have 5: "authorize demo_env demo_compare alice_creds demo_db =
       Some \<lparr> au_id = user_id alice, au_name = user_name alice, au_email = user_email alice \<rparr>"
  proof -
    have na: "\<not> (cred_email alice_creds = Some (utf16 ''demo@chat.app'') \<and>
                 cred_password alice_creds = Some (utf16 ''demo1234''))"
      by (simp add: alice_creds_def utf16_def)
    have "\<exists>e p u h. cred_email alice_creds = Some e \<and> cred_password alice_creds = Some p \<and>
               user_findUnique demo_db e = Inr (Some u) \<and> passwordHash u = Some h \<and> h \<noteq> [] \<and>
               demo_compare p h \<and>
               \<lparr> au_id = user_id alice, au_name = user_name alice, au_email = user_email alice \<rparr>
                 = \<lparr> au_id = user_id u, au_name = user_name u, au_email = user_email u \<rparr>"
      using fa by (simp add: alice_creds_def alice_def demo_compare_def utf16_def)
    then show ?thesis
      using dflt [where c = alice_creds and d = demo_db] na by blast
  qed
  show ?thesis using 1 2 3 4 5 by (simp add: alice_def)
qed

text \<open>
  C8. The sign-in callback returns \<open>true\<close> for every provider, user and database,
  the unreachable database included: no error leaves it and no case rejects.
\<close>

theorem signIn_always_true: "signIn provider email d = Inr True"
  by (simp add: signIn_def split: option.split sum.split prod.split)

theorem signIn_always_true_witness:
  "signIn (Some (utf16 ''google'')) (Some (utf16 ''a@x.io'')) down_db = Inr True
   \<and> user_findUnique_accounts down_db (utf16 ''a@x.io'') = Inl (utf16 ''connection refused'')"
  using signIn_always_true [of "Some (utf16 ''google'')" "Some (utf16 ''a@x.io'')" down_db]
  by (simp add: user_findUnique_accounts_def prisma_def down_db_def)

subsection \<open>Chats\<close>

text \<open>
  C4. For a signed-in user with a row in the database: when the chat of the given id
  belongs to the user, the handler answers with success after deleting first the
  messages of that chat and then the chat, so that no message and no chat of that id is
  left, every other message and chat is kept, and the other tables are unchanged; when
  no chat of that id belongs to the user, it answers 404 and the database is unchanged.
\<close>

theorem delete_chat_cleanup:
  assumes email: "e \<noteq> []"
    and up: "db_error d = None"
    and found: "find (\<lambda>u. user_email u = e) (users d) = Some u"
  shows "(find (\<lambda>c. chat_id c = cid \<and> chat_userId c = user_id u) (chatSessions d) \<noteq> None \<longrightarrow>
            (\<exists>d1 d2. DELETE_chat (Some e) cid d = (Success True, d2)
               \<and> message_deleteMany d cid = Inr d1 \<and> chatSession_delete d1 cid = Inr d2
               \<and> messages d2 = filter (\<lambda>m. msg_chatId m \<noteq> cid) (messages d)
               \<and> chatSessions d2 = filter (\<lambda>c. chat_id c \<noteq> cid) (chatSessions d)
               \<and> users d2 = users d \<and> accounts d2 = accounts d \<and> invoices d2 = invoices d
               \<and> invoiceSearches d2 = invoiceSearches d
               \<and> (\<forall>m \<in> set (messages d2). msg_chatId m \<noteq> cid)
               \<and> (\<forall>c \<in> set (chatSessions d2). chat_id c \<noteq> cid)))
       \<and> (find (\<lambda>c. chat_id c = cid \<and> chat_userId c = user_id u) (chatSessions d) = None \<longrightarrow>
            DELETE_chat (Some e) cid d = (JsonError 404 (utf16 ''Chat not found''), d))"
proof (intro conjI impI)
  assume owned: "find (\<lambda>c. chat_id c = cid \<and> chat_userId c = user_id u) (chatSessions d) \<noteq> None"
  then obtain chat where chat:
    "find (\<lambda>c. chat_id c = cid \<and> chat_userId c = user_id u) (chatSessions d) = Some chat"
    by blast
  then have ex: "list_ex (\<lambda>c. chat_id c = cid) (chatSessions d)"
    by (auto simp add: find_Some_iff list_ex_iff)
  let ?d1 = "d\<lparr>messages := filter (\<lambda>m. msg_chatId m \<noteq> cid) (messages d)\<rparr>"
  let ?d2 = "?d1\<lparr>chatSessions := filter (\<lambda>c. chat_id c \<noteq> cid) (chatSessions d)\<rparr>"
  have m: "message_deleteMany d cid = Inr ?d1"
    using up by (simp add: message_deleteMany_def prisma_def)
  have c: "chatSession_delete ?d1 cid = Inr ?d2"
    using up ex by (simp add: chatSession_delete_def prisma_def)
  have r: "DELETE_chat (Some e) cid d = (Success True, ?d2)"
    using email up found chat m c
    by (simp add: DELETE_chat_def user_findUnique_def chatSession_findFirst_def prisma_def)
  show "\<exists>d1 d2. DELETE_chat (Some e) cid d = (Success True, d2)
               \<and> message_deleteMany d cid = Inr d1 \<and> chatSession_delete d1 cid = Inr d2
               \<and> messages d2 = filter (\<lambda>m. msg_chatId m \<noteq> cid) (messages d)
               \<and> chatSessions d2 = filter (\<lambda>c. chat_id c \<noteq> cid) (chatSessions d)
               \<and> users d2 = users d \<and> accounts d2 = accounts d \<and> invoices d2 = invoices d
               \<and> invoiceSearches d2 = invoiceSearches d
               \<and> (\<forall>m \<in> set (messages d2). msg_chatId m \<noteq> cid)
               \<and> (\<forall>c \<in> set (chatSessions d2). chat_id c \<noteq> cid)"
    by (rule exI [of _ ?d1], rule exI [of _ ?d2]) (simp add: r m c)
next
  assume "find (\<lambda>c. chat_id c = cid \<and> chat_userId c = user_id u) (chatSessions d) = None"
  then show "DELETE_chat (Some e) cid d = (JsonError 404 (utf16 ''Chat not found''), d)"
    using email up found
    by (simp add: DELETE_chat_def user_findUnique_def chatSession_findFirst_def prisma_def)
qed

theorem delete_chat_cleanup_witness:
  "(\<exists>d2. DELETE_chat (Some (utf16 ''a@x.io'')) (utf16 ''c1'') demo_db = (Success True, d2)
      \<and> messages d2 = [mk_message ''c2'' ''user'' ''yo''] \<and> chatSessions d2 = [chat2])
   \<and> DELETE_chat (Some (utf16 ''a@x.io'')) (utf16 ''c2'') demo_db
       = (JsonError 404 (utf16 ''Chat not found''), demo_db)"
proof -
  note t = delete_chat_cleanup [OF utf16_nonempty demo_db_up find_alice]
  have own: "find (\<lambda>c. chat_id c = utf16 ''c1'' \<and> chat_userId c = user_id alice)
               (chatSessions demo_db) \<noteq> None"
    by (simp add: demo_db_def chat1_def alice_def)
  have other: "find (\<lambda>c. chat_id c = utf16 ''c2'' \<and> chat_userId c = user_id alice)
               (chatSessions demo_db) = None"
    by (simp add: demo_db_def chat1_def chat2_def alice_def utf16_def)
  have f1: "filter (\<lambda>m. msg_chatId m \<noteq> utf16 ''c1'') (messages demo_db)
              = [mk_message ''c2'' ''user'' ''yo'']"
    by (simp add: demo_db_def mk_message_def utf16_def)
  have f2: "filter (\<lambda>c. chat_id c \<noteq> utf16 ''c1'') (chatSessions demo_db) = [chat2]"
    by (simp add: demo_db_def chat1_def chat2_def utf16_def)
  from t [of "utf16 ''c1''"] own f1 f2
  have a: "\<exists>d2. DELETE_chat (Some (utf16 ''a@x.io'')) (utf16 ''c1'') demo_db = (Success True, d2)
      \<and> messages d2 = [mk_message ''c2'' ''user'' ''yo''] \<and> chatSessions d2 = [chat2]"
    by auto
  from t [of "utf16 ''c2''"] other
  have b: "DELETE_chat (Some (utf16 ''a@x.io'')) (utf16 ''c2'') demo_db
       = (JsonError 404 (utf16 ''Chat not found''), demo_db)"
    by blast
  show ?thesis using a b by blast
qed



subsubsection \<open>Creating the session of a prompt\<close>

lemma ensure_user_up:
  assumes up: "db_error d = None"
  shows "\<exists>u d1. ensure_user ids e name d = Inr (u, d1)
           \<and> user_id u = (case find (\<lambda>u. user_email u = e) (users d) of
                             Some u \<Rightarrow> user_id u | None \<Rightarrow> new_userId ids)
           \<and> db_error d1 = None \<and> chatSessions d1 = chatSessions d"
proof (cases "find (\<lambda>u. user_email u = e) (users d)")
  case None
  with up show ?thesis
    by (simp add: ensure_user_def user_findUnique_def user_create_def prisma_def Let_def)
next
  case (Some u)
  with up show ?thesis
    by (simp add: ensure_user_def user_findUnique_def prisma_def)
qed

lemma ensure_chat_up:
  assumes up: "db_error d = None"
  shows "\<exists>chat d2. ensure_chat ids chatId p u d = Inr (chat, d2) \<and> db_error d2 = None"
proof (cases chatId)
  case None
  with up show ?thesis
    by (simp add: ensure_chat_def chatSession_create_def prisma_def Let_def)
next
  case (Some cid)
  show ?thesis
  proof (cases "cid = []")
    case True
    with Some up show ?thesis
      by (simp add: ensure_chat_def chatSession_create_def prisma_def Let_def)
  next
    case False
    show ?thesis
    proof (cases "find (\<lambda>c. chat_id c = cid \<and> chat_userId c = user_id u) (chatSessions d)")
      case None
      with Some False up show ?thesis
        by (simp add: ensure_chat_def chatSession_findFirst_def chatSession_create_def
            prisma_def Let_def)
    next
      case (Some c)
      with \<open>chatId = Some cid\<close> False up show ?thesis
        by (simp add: ensure_chat_def chatSession_findFirst_def prisma_def)
    qed
  qed
qed

lemma ensure_chat_new:
  assumes up: "db_error d = None"
    and prompt: "p \<noteq> []"
    and nochat: "chatId = None \<or> chatId = Some [] \<or>
       (\<exists>cid. chatId = Some cid \<and>
          find (\<lambda>c. chat_id c = cid \<and> chat_userId c = user_id u) (chatSessions d) = None)"
  shows "ensure_chat ids chatId p u d =
           Inr (\<lparr> chat_id = new_chatId ids, chat_userId = user_id u, chat_title = take 32 p \<rparr>,
                d\<lparr>chatSessions := chatSessions d @
                  [\<lparr> chat_id = new_chatId ids, chat_userId = user_id u,
                     chat_title = take 32 p \<rparr>]\<rparr>)"
proof -
  have t: "str_or (take 32 p) (utf16 ''New chat'') = take 32 p"
    using prompt by (simp add: str_or_def)
  have look: "(case chatId of
              None \<Rightarrow> Inr None
            | Some cid \<Rightarrow>
                if cid = [] then Inr None else chatSession_findFirst d cid (user_id u))
          = Inr None"
    using nochat up
    by (auto simp add: chatSession_findFirst_def prisma_def)
  show ?thesis
    unfolding ensure_chat_def look
    using up by (simp add: chatSession_create_def prisma_def Let_def t)
qed

lemma POST_chat_steps:
  assumes email: "e \<noteq> []"
    and prompt: "p \<noteq> []"
    and eu: "ensure_user ids e name d = Inr (u, d1)"
    and ec: "ensure_chat ids chatId p u d1 = Inr (chat, d2)"
    and up: "db_error d2 = None"
  shows "POST_chat g ids (Some e) name chatId (Some (JStr p)) d =
           (Success \<lparr> sc_chatId = chat_id chat, sc_messageId = new_messageId ids,
                      sc_text = g p \<rparr>,
            d2\<lparr>messages := messages d2 @
                 [\<lparr> msg_chatId = chat_id chat, msg_role = utf16 ''user'', msg_content = p \<rparr>]\<rparr>)"
  using email prompt up
  by (simp add: POST_chat_def eu ec message_create_def prisma_def)


text \<open>
  C5. For a signed-in request with a non-empty string prompt and a reachable database,
  when the request has no chat id, an empty one, or one that matches no chat of the
  user, the handler appends a new chat session owned by the user whose title is the
  first 32 code units of the prompt, which is the whole prompt when it is shorter.
\<close>

theorem new_chat_titled_from_prompt:
  assumes email: "e \<noteq> []"
    and prompt: "p \<noteq> []"
    and up: "db_error d = None"
    and uid: "uid = (case find (\<lambda>u. user_email u = e) (users d) of
                       Some u \<Rightarrow> user_id u | None \<Rightarrow> new_userId ids)"
    and nochat: "chatId = None \<or> chatId = Some [] \<or>
       (\<exists>cid. chatId = Some cid \<and>
          find (\<lambda>c. chat_id c = cid \<and> chat_userId c = uid) (chatSessions d) = None)"
  shows "\<exists>ctx d' chat. POST_chat g ids (Some e) name chatId (Some (JStr p)) d = (Success ctx, d')
           \<and> chatSessions d' = chatSessions d @ [chat]
           \<and> chat_userId chat = uid \<and> chat_id chat = sc_chatId ctx
           \<and> chat_title chat = take 32 p
           \<and> (length p < 32 \<longrightarrow> chat_title chat = p)"
proof -
  from ensure_user_up [OF up, of ids e name] obtain u d1 where
    eu: "ensure_user ids e name d = Inr (u, d1)"
    and u: "user_id u = uid"
    and up1: "db_error d1 = None"
    and same: "chatSessions d1 = chatSessions d"
    using uid by auto
  let ?chat = "\<lparr> chat_id = new_chatId ids, chat_userId = user_id u, chat_title = take 32 p \<rparr>"
  let ?d2 = "d1\<lparr>chatSessions := chatSessions d1 @ [?chat]\<rparr>"
  have nochat1: "chatId = None \<or> chatId = Some [] \<or>
       (\<exists>cid. chatId = Some cid \<and>
          find (\<lambda>c. chat_id c = cid \<and> chat_userId c = user_id u) (chatSessions d1) = None)"
    using nochat u same by simp
  have ec: "ensure_chat ids chatId p u d1 = Inr (?chat, ?d2)"
    by (rule ensure_chat_new [OF up1 prompt nochat1])
  have up2: "db_error ?d2 = None"
    using up1 by simp
  have post: "POST_chat g ids (Some e) name chatId (Some (JStr p)) d =
           (Success \<lparr> sc_chatId = chat_id ?chat, sc_messageId = new_messageId ids,
                      sc_text = g p \<rparr>,
            ?d2\<lparr>messages := messages ?d2 @
                 [\<lparr> msg_chatId = chat_id ?chat, msg_role = utf16 ''user'', msg_content = p \<rparr>]\<rparr>)"
    by (rule POST_chat_steps [OF email prompt eu ec up2])
  show ?thesis
    by (rule exI [of _ "\<lparr> sc_chatId = chat_id ?chat, sc_messageId = new_messageId ids,
                      sc_text = g p \<rparr>"],
        rule exI [of _ "?d2\<lparr>messages := messages ?d2 @
                 [\<lparr> msg_chatId = chat_id ?chat, msg_role = utf16 ''user'', msg_content = p \<rparr>]\<rparr>"],
        rule exI [of _ ?chat])
       (simp add: post same u)
qed

theorem new_chat_titled_from_prompt_witness:
  "\<exists>ctx d' chat.
      POST_chat demo_responder demo_ids (Some (utf16 ''a@x.io'')) None None
        (Some (JStr (utf16 ''0123456789012345678901234567890123456789''))) demo_db = (Success ctx, d')
      \<and> chatSessions d' = chatSessions demo_db @ [chat]
      \<and> chat_userId chat = utf16 ''u1''
      \<and> chat_title chat = utf16 ''01234567890123456789012345678901''"
proof -
  have p: "utf16 ''0123456789012345678901234567890123456789'' \<noteq> []"
    by (simp add: utf16_def)
  have uid: "utf16 ''u1'' = (case find (\<lambda>u. user_email u = utf16 ''a@x.io'') (users demo_db) of
                       Some u \<Rightarrow> user_id u | None \<Rightarrow> new_userId demo_ids)"
    by (simp add: find_alice) (simp add: alice_def)
  have t: "take 32 (utf16 ''0123456789012345678901234567890123456789'')
             = utf16 ''01234567890123456789012345678901''"
    by (simp add: utf16_def)
  show ?thesis
    using new_chat_titled_from_prompt [OF utf16_nonempty p demo_db_up uid, of None demo_responder None]
    unfolding t by blast
qed

subsubsection \<open>The frames of the stream\<close>

lemma stream_loop_drop:
  "i \<le> length r \<Longrightarrow>
     stream_loop cid r i st =
       \<lparr> enqueued = enqueued st @ map (\<lambda>c. Chunk [c] cid) (drop i r),
         fullText = fullText st @ drop i r \<rparr>"
proof (induction cid r i st rule: stream_loop.induct)
  case (1 chatId hardcodedResponse i st)
  show ?case
  proof (cases "i < length hardcodedResponse")
    case True
    then have d: "drop i hardcodedResponse = hardcodedResponse ! i # drop (Suc i) hardcodedResponse"
      by (simp add: Cons_nth_drop_Suc)
    from True have le: "Suc i \<le> length hardcodedResponse" by simp
    have "stream_loop chatId hardcodedResponse i st =
        stream_loop chatId hardcodedResponse (Suc i)
          \<lparr> enqueued = enqueued st @ [Chunk [hardcodedResponse ! i] chatId],
            fullText = fullText st @ [hardcodedResponse ! i] \<rparr>"
      using True by (subst stream_loop.simps) simp
    also have "\<dots> =
        \<lparr> enqueued = (enqueued st @ [Chunk [hardcodedResponse ! i] chatId]) @
             map (\<lambda>c. Chunk [c] chatId) (drop (Suc i) hardcodedResponse),
          fullText = (fullText st @ [hardcodedResponse ! i]) @ drop (Suc i) hardcodedResponse \<rparr>"
      using "1.IH" [OF True le] by simp
    finally show ?thesis by (simp add: d)
  next
    case False
    with "1.prems" have "i = length hardcodedResponse" by simp
    then show ?thesis
      by (subst stream_loop.simps) simp
  qed
qed

lemma chunk_contents_chunks:
  "chunk_contents (map (\<lambda>c. Chunk [c] cid) r @ fs) = map (\<lambda>c. [c]) r @ chunk_contents fs"
  by (induction r) simp_all

lemma concat_singletons: "concat (map (\<lambda>c. [c]) r) = r"
  by (induction r) simp_all

lemma stream_start_frames:
  "fst (stream_start ctx d) =
     Start (sc_chatId ctx) (sc_messageId ctx) #
     map (\<lambda>c. Chunk [c] (sc_chatId ctx)) (sc_text ctx) @
     [case db_error d of
        None \<Rightarrow> Done (sc_messageId ctx) (sc_text ctx) (sc_chatId ctx)
      | Some err \<Rightarrow> ErrorFrame (utf16 ''Failed to process message'') err]"
  by (simp add: stream_start_def stream_loop_drop message_create_def prisma_def Let_def
      split: option.split)


text \<open>
  C6. For a signed-in request with a non-empty string prompt and a reachable database
  the handler returns the streaming response with status 200. Whatever the database does
  when the assistant message is saved, the stream then emits one start frame, one chunk
  frame for each code unit of the generated text in order, and a last frame: the done
  frame carrying the whole text when the save succeeds, an error frame when it throws.
  The chunk contents concatenate to the generated text. The status was fixed when the
  response was returned, so a failure shows only as the error frame.
\<close>

theorem chat_stream_frames:
  assumes email: "e \<noteq> []"
    and prompt: "p \<noteq> []"
    and up: "db_error d0 = None"
  shows "\<exists>ctx d1. POST_chat g ids (Some e) name chatId (Some (JStr p)) d0 = (Success ctx, d1)
           \<and> status_of (fst (POST_chat g ids (Some e) name chatId (Some (JStr p)) d0)) = 200
           \<and> sc_text ctx = g p
           \<and> (\<forall>d. fst (stream_start ctx d) =
                    Start (sc_chatId ctx) (sc_messageId ctx) #
                    map (\<lambda>c. Chunk [c] (sc_chatId ctx)) (g p) @
                    [case db_error d of
                       None \<Rightarrow> Done (sc_messageId ctx) (g p) (sc_chatId ctx)
                     | Some err \<Rightarrow> ErrorFrame (utf16 ''Failed to process message'') err]
                  \<and> concat (chunk_contents (fst (stream_start ctx d))) = g p)"
proof -
  from ensure_user_up [OF up, of ids e name] obtain u d1 where
    eu: "ensure_user ids e name d0 = Inr (u, d1)" and up1: "db_error d1 = None"
    by blast
  from ensure_chat_up [OF up1, of ids chatId p u] obtain chat d2 where
    ec: "ensure_chat ids chatId p u d1 = Inr (chat, d2)" and up2: "db_error d2 = None"
    by blast
  let ?ctx = "\<lparr> sc_chatId = chat_id chat, sc_messageId = new_messageId ids, sc_text = g p \<rparr>"
  let ?d3 = "d2\<lparr>messages := messages d2 @
                 [\<lparr> msg_chatId = chat_id chat, msg_role = utf16 ''user'', msg_content = p \<rparr>]\<rparr>"
  have post: "POST_chat g ids (Some e) name chatId (Some (JStr p)) d0 = (Success ?ctx, ?d3)"
    by (rule POST_chat_steps [OF email prompt eu ec up2])
  have frames: "\<And>d. fst (stream_start ?ctx d) =
                    Start (chat_id chat) (new_messageId ids) #
                    map (\<lambda>c. Chunk [c] (chat_id chat)) (g p) @
                    [case db_error d of
                       None \<Rightarrow> Done (new_messageId ids) (g p) (chat_id chat)
                     | Some err \<Rightarrow> ErrorFrame (utf16 ''Failed to process message'') err]"
    by (simp add: stream_start_frames split: option.split)
  show ?thesis
    by (rule exI [of _ ?ctx], rule exI [of _ ?d3])
       (simp add: post frames chunk_contents_chunks concat_singletons split: option.split)
qed

theorem chat_stream_frames_witness:
  "\<exists>ctx d1.
      POST_chat demo_responder demo_ids (Some (utf16 ''a@x.io'')) None (Some (utf16 ''c1''))
        (Some (JStr (utf16 ''hello''))) demo_db = (Success ctx, d1)
      \<and> fst (stream_start ctx demo_db) =
            [Start (sc_chatId ctx) (sc_messageId ctx), Chunk [0x48] (sc_chatId ctx),
             Chunk [0x69] (sc_chatId ctx), Done (sc_messageId ctx) [0x48, 0x69] (sc_chatId ctx)]
      \<and> fst (stream_start ctx down_db) =
            [Start (sc_chatId ctx) (sc_messageId ctx), Chunk [0x48] (sc_chatId ctx),
             Chunk [0x69] (sc_chatId ctx),
             ErrorFrame (utf16 ''Failed to process message'') (utf16 ''connection refused'')]"
proof -
  have p: "utf16 ''hello'' \<noteq> []"
    by (simp add: utf16_def)
  have g: "demo_responder (utf16 ''hello'') = [0x48, 0x69]"
    by (simp add: demo_responder_def utf16_def)
  have dn: "db_error down_db = Some (utf16 ''connection refused'')"
    by (simp add: down_db_def)
  from chat_stream_frames [OF utf16_nonempty p demo_db_up,
      of demo_responder demo_ids None "Some (utf16 ''c1'')"]
  obtain ctx d1 where
    post: "POST_chat demo_responder demo_ids (Some (utf16 ''a@x.io'')) None (Some (utf16 ''c1''))
        (Some (JStr (utf16 ''hello''))) demo_db = (Success ctx, d1)"
    and fr: "\<And>d. fst (stream_start ctx d) =
                    Start (sc_chatId ctx) (sc_messageId ctx) #
                    map (\<lambda>c. Chunk [c] (sc_chatId ctx)) (demo_responder (utf16 ''hello'')) @
                    [case db_error d of
                       None \<Rightarrow> Done (sc_messageId ctx) (demo_responder (utf16 ''hello''))
                                (sc_chatId ctx)
                     | Some err \<Rightarrow> ErrorFrame (utf16 ''Failed to process message'') err]"
    by blast
  show ?thesis
    by (rule exI [of _ ctx], rule exI [of _ d1]) (simp add: post fr g dn demo_db_up)
qed

subsection \<open>Cosine similarity and the similarity search\<close>

lemma cosine_loop_closed:
  "length a = length b \<Longrightarrow> i \<le> length a \<Longrightarrow>
     cosine_loop a b i (dp, na, nb) =
       (dp + dot_product (drop i a) (drop i b),
        na + sum_list (map (\<lambda>x. x * x) (drop i a)),
        nb + sum_list (map (\<lambda>x. x * x) (drop i b)))"
proof (induction a b i "(dp, na, nb)" arbitrary: dp na nb rule: cosine_loop.induct)
  case (1 vecA vecB i dotProduct normA normB)
  show ?case
  proof (cases "i < length vecA")
    case True
    with "1.prems" have ib: "i < length vecB" by simp
    have da: "drop i vecA = vecA ! i # drop (Suc i) vecA"
      using True by (simp add: Cons_nth_drop_Suc)
    have db: "drop i vecB = vecB ! i # drop (Suc i) vecB"
      using ib by (simp add: Cons_nth_drop_Suc)
    from True have le: "Suc i \<le> length vecA" by simp
    have "cosine_loop vecA vecB i (dotProduct, normA, normB) =
          cosine_loop vecA vecB (Suc i)
            (dotProduct + vecA ! i * vecB ! i, normA + vecA ! i * vecA ! i,
             normB + vecB ! i * vecB ! i)"
      using True by (subst cosine_loop.simps) simp
    also have "\<dots> =
        (dotProduct + vecA ! i * vecB ! i + dot_product (drop (Suc i) vecA) (drop (Suc i) vecB),
         normA + vecA ! i * vecA ! i + sum_list (map (\<lambda>x. x * x) (drop (Suc i) vecA)),
         normB + vecB ! i * vecB ! i + sum_list (map (\<lambda>x. x * x) (drop (Suc i) vecB)))"
      using "1.hyps" [OF True "1.prems"(1) le] by simp
    finally show ?thesis
      by (simp add: da db dot_product_def)
  next
    case False
    with "1.prems" have "i = length vecA" "i = length vecB" by simp_all
    then show ?thesis
      by (subst cosine_loop.simps) (simp add: dot_product_def)
  qed
qed

lemma sum_squares_zero_iff:
  "sum_list (map (\<lambda>x. x * x) a) = 0 \<longleftrightarrow> magnitude a = (0::real)"
  by (simp add: magnitude_def)

lemma cosineSimilarity_closed:
  assumes "length a = length b"
  shows "cosineSimilarity a b =
           Inr (if magnitude a = 0 \<or> magnitude b = 0 then 0
                else dot_product a b / (magnitude a * magnitude b))"
  using assms
  by (simp add: cosineSimilarity_def cosine_loop_closed sum_squares_zero_iff)
     (simp add: magnitude_def)


lemma magnitude_3_4: "magnitude [3, 4] = 5"
  using real_sqrt_abs [of 5] by (simp add: magnitude_def)

lemma magnitude_4_3: "magnitude [4, 3] = 5"
  using real_sqrt_abs [of 5] by (simp add: magnitude_def)

text \<open>
  C7, as stated, at a zero vector: the glossary's quotient is a division by zero and has
  no value, while the function returns 0.
\<close>

theorem cosineSimilarity_zero_vector_counterexample:
  "length [0::real] = length [1::real] \<and> cosineSimilarity [0] [1] = Inr 0
   \<and> cosine_by_glossary [0] [1] = None"
  by (simp add: cosineSimilarity_closed cosine_by_glossary_def js_divide_def magnitude_def)

text \<open>
  C7, amended. For two vectors of equal length whose magnitudes are both non-zero,
  \<open>cosineSimilarity\<close> returns the dot product divided by the product of the
  magnitudes, which is the glossary's quotient; when either magnitude is zero it
  returns 0.
\<close>

theorem cosineSimilarity_guarded_quotient:
  assumes "length a = length b"
  shows "(magnitude a \<noteq> 0 \<and> magnitude b \<noteq> 0 \<longrightarrow>
            cosineSimilarity a b = Inr (dot_product a b / (magnitude a * magnitude b))
            \<and> cosine_by_glossary a b = Some (dot_product a b / (magnitude a * magnitude b)))
       \<and> (magnitude a = 0 \<or> magnitude b = 0 \<longrightarrow> cosineSimilarity a b = Inr 0)"
  using assms
  by (simp add: cosineSimilarity_closed cosine_by_glossary_def js_divide_def)

theorem cosineSimilarity_guarded_quotient_witness:
  "cosineSimilarity [3, 4] [4, 3] = Inr (24 / 25) \<and> cosineSimilarity [0, 0] [4, 3] = Inr 0"
proof -
  have l: "length [3, 4 :: real] = length [4, 3 :: real]" "length [0, 0 :: real] = length [4, 3 :: real]"
    by simp_all
  have z: "magnitude [0, 0] = 0"
    by (simp add: magnitude_def)
  show ?thesis
    using cosineSimilarity_guarded_quotient [OF l(1)] cosineSimilarity_guarded_quotient [OF l(2)]
    by (simp add: magnitude_3_4 magnitude_4_3 z dot_product_def)
qed

lemma score_invoice_Some:
  "score_invoice parse q i = Some r \<Longrightarrow>
     scored r = i \<and> (\<exists>t v. embeddings i = Some t \<and> parse t = Some v \<and>
                       cosineSimilarity q v = Inr (similarity_score r))"
  by (auto simp add: score_invoice_def split: option.splits sum.splits)

lemma sorted_desc_sort_key:
  "sorted_wrt (\<lambda>a b. similarity_score a \<ge> similarity_score b)
     (sort_key (\<lambda>s. - similarity_score s) xs)"
proof -
  have "sorted (map (\<lambda>s. - similarity_score s) (sort_key (\<lambda>s. - similarity_score s) xs))"
    by (rule sorted_sort_key)
  then show ?thesis
    by (simp add: sorted_map)
qed

text \<open>
  C9. With a reachable database \<open>findSimilarInvoices\<close> returns a list of at most ten
  results in non-increasing order of score. Every result is a stored invoice of the
  user with status \<open>processed\<close> whose embeddings are present and parse, scored by
  \<open>cosineSimilarity\<close> against the query. An invoice whose embeddings do not parse is
  in no result, and the search still returns.
\<close>

theorem findSimilarInvoices_top10:
  assumes up: "db_error d = None"
  shows "\<exists>rs. findSimilarInvoices parse q uid d = Inr rs
           \<and> length rs \<le> 10
           \<and> sorted_wrt (\<lambda>a b. similarity_score a \<ge> similarity_score b) rs
           \<and> (\<forall>r \<in> set rs. scored r \<in> set (invoices d)
                  \<and> inv_userId (scored r) = uid \<and> inv_status (scored r) = processed
                  \<and> (\<exists>t v. embeddings (scored r) = Some t \<and> parse t = Some v
                         \<and> cosineSimilarity q v = Inr (similarity_score r)))
           \<and> (\<forall>i t. embeddings i = Some t \<and> parse t = None \<longrightarrow> i \<notin> scored ` set rs)"
proof -
  let ?P = "\<lambda>i. inv_userId i = uid \<and> inv_status i = processed \<and> embeddings i \<noteq> None"
  let ?sims = "List.map_filter (score_invoice parse q) (filter ?P (invoices d))"
  let ?rs = "take 10 (sort_key (\<lambda>s. - similarity_score s) ?sims)"
  have res: "findSimilarInvoices parse q uid d = Inr ?rs"
    using up by (simp add: findSimilarInvoices_def invoice_findMany_def prisma_def Let_def)
  have len: "length ?rs \<le> 10" by simp
  have srt: "sorted_wrt (\<lambda>a b. similarity_score a \<ge> similarity_score b) ?rs"
    by (rule sorted_wrt_take [OF sorted_desc_sort_key])
  have mem: "\<And>r. r \<in> set ?rs \<Longrightarrow>
      \<exists>i. i \<in> set (invoices d) \<and> ?P i \<and> score_invoice parse q i = Some r"
  proof -
    fix r assume "r \<in> set ?rs"
    then have "r \<in> set ?sims" by (auto dest: in_set_takeD)
    then show "\<exists>i. i \<in> set (invoices d) \<and> ?P i \<and> score_invoice parse q i = Some r"
      by (auto simp add: List.map_filter_def)
  qed
  have drawn: "\<forall>r \<in> set ?rs. scored r \<in> set (invoices d)
                  \<and> inv_userId (scored r) = uid \<and> inv_status (scored r) = processed
                  \<and> (\<exists>t v. embeddings (scored r) = Some t \<and> parse t = Some v
                         \<and> cosineSimilarity q v = Inr (similarity_score r))"
  proof
    fix r assume "r \<in> set ?rs"
    from mem [OF this] obtain i where i: "i \<in> set (invoices d)" "?P i"
      "score_invoice parse q i = Some r" by blast
    from score_invoice_Some [OF i(3)] i(1,2)
    show "scored r \<in> set (invoices d)
                  \<and> inv_userId (scored r) = uid \<and> inv_status (scored r) = processed
                  \<and> (\<exists>t v. embeddings (scored r) = Some t \<and> parse t = Some v
                         \<and> cosineSimilarity q v = Inr (similarity_score r))"
      by auto
  qed
  have excl: "\<forall>i t. embeddings i = Some t \<and> parse t = None \<longrightarrow> i \<notin> scored ` set ?rs"
    using drawn by auto
  show ?thesis
    using res len srt drawn excl by blast
qed

lemma cos_10_10: "cosineSimilarity [1, 0] [1, 0] = Inr 1"
  by (simp add: cosineSimilarity_closed magnitude_def dot_product_def)

lemma cos_10_01: "cosineSimilarity [1, 0] [0, 1] = Inr 0"
  by (simp add: cosineSimilarity_closed magnitude_def dot_product_def)

lemma similar_candidates:
  "filter (\<lambda>i. inv_userId i = utf16 ''u1'' \<and> inv_status i = processed \<and>
              (\<exists>t. embeddings i = Some t))
     (invoices search_db) = [inv1, inv2, inv5]"
  by (simp add: search_db_def demo_db_def inv1_def inv2_def inv3_def inv4_def inv5_def
      mk_invoice_def processed_def utf16_def)

lemma score_inv1:
  "score_invoice demo_parse [1, 0] inv1 = Some \<lparr> scored = inv1, similarity_score = 1 \<rparr>"
  by (simp add: score_invoice_def cos_10_10) (simp add: inv1_def mk_invoice_def demo_parse_def cos_10_10)

lemma score_inv2:
  "score_invoice demo_parse [1, 0] inv2 = Some \<lparr> scored = inv2, similarity_score = 0 \<rparr>"
  by (simp add: score_invoice_def) (simp add: inv2_def mk_invoice_def demo_parse_def utf16_def cos_10_01)

lemma score_inv5: "score_invoice demo_parse [1, 0] inv5 = None"
  by (simp add: score_invoice_def) (simp add: inv5_def mk_invoice_def demo_parse_def utf16_def)

theorem findSimilarInvoices_top10_witness:
  "findSimilarInvoices demo_parse [1, 0] (utf16 ''u1'') search_db =
     Inr [\<lparr> scored = inv1, similarity_score = 1 \<rparr>, \<lparr> scored = inv2, similarity_score = 0 \<rparr>]
   \<and> embeddings inv5 = Some (utf16 ''not json'') \<and> demo_parse (utf16 ''not json'') = None"
proof -
  have up: "db_error search_db = None"
    by (simp add: search_db_def demo_db_def)
  from findSimilarInvoices_top10 [OF up, of demo_parse "[1, 0]" "utf16 ''u1''"]
  obtain rs where rs: "findSimilarInvoices demo_parse [1, 0] (utf16 ''u1'') search_db = Inr rs"
    by blast
  have "findSimilarInvoices demo_parse [1, 0] (utf16 ''u1'') search_db =
     Inr [\<lparr> scored = inv1, similarity_score = 1 \<rparr>, \<lparr> scored = inv2, similarity_score = 0 \<rparr>]"
    using up
    by (simp add: findSimilarInvoices_def invoice_findMany_def prisma_def Let_def
        similar_candidates score_inv1 score_inv2 score_inv5)
  moreover have "embeddings inv5 = Some (utf16 ''not json'')"
    by (simp add: inv5_def mk_invoice_def)
  moreover have "demo_parse (utf16 ''not json'') = None"
    by (simp add: demo_parse_def utf16_def)
  ultimately show ?thesis using rs by simp
qed


subsection \<open>Search and its random query embedding\<close>

lemma foldl_squares_zeros:
  "foldl (\<lambda>sum val. sum + val * val) acc (replicate n (0::real)) = acc"
  by (induction n arbitrary: acc) simp_all

lemma sqrt_quarter: "sqrt (1 / 4) = 1 / 2"
  using real_sqrt_abs [of "1 / 2"] by (simp add: power2_eq_square)

lemma queryNorm_a: "sqrt (foldl (\<lambda>sum val. sum + val * val) 0 draws_a) = 1 / 2"
  by (simp add: draws_a_def foldl_squares_zeros) (simp add: sqrt_quarter)

lemma queryNorm_b: "sqrt (foldl (\<lambda>sum val. sum + val * val) 0 draws_b) = 1 / 2"
  by (simp add: draws_b_def foldl_squares_zeros) (simp add: sqrt_quarter)

lemma queryNorm_c: "sqrt (foldl (\<lambda>sum val. sum + val * val) 0 draws_c) = 1 / 2"
  by (simp add: draws_c_def foldl_squares_zeros) (simp add: sqrt_quarter)

lemma valid_draws_abc: "valid_draws draws_a" "valid_draws draws_b" "valid_draws draws_c"
  by (auto simp add: valid_draws_def draws_a_def draws_b_def draws_c_def list_all_iff)

lemma search_candidates:
  "invoice_findMany_desc search_db
     (\<lambda>i. inv_userId i = user_id alice \<and> inv_status i = processed) = Inr [inv5, inv2, inv1]"
  by (simp add: invoice_findMany_desc_def prisma_def search_db_def demo_db_def alice_def
      inv1_def inv2_def inv3_def inv4_def inv5_def mk_invoice_def processed_def utf16_def)

lemma sim_inv5:
  "search_similarity demo_parse (\<lambda>v. []) draws (utf16 ''x'') inv5 = 0"
  by (simp add: search_similarity_def inv5_def mk_invoice_def demo_parse_def utf16_def)

lemma sim_inv1:
  "search_similarity demo_parse (\<lambda>v. []) draws (utf16 ''x'') inv1 =
     (if sqrt (foldl (\<lambda>sum val. sum + val * val) 0 draws) \<noteq> 0
      then draw_at draws 0 / sqrt (foldl (\<lambda>sum val. sum + val * val) 0 draws) else 0)"
  by (simp add: search_similarity_def inv1_def mk_invoice_def demo_parse_def utf16_def Let_def)

lemma sim_inv2:
  "search_similarity demo_parse (\<lambda>v. []) draws (utf16 ''x'') inv2 =
     (if sqrt (foldl (\<lambda>sum val. sum + val * val) 0 draws) \<noteq> 0
      then draw_at draws (Suc 0) / sqrt (foldl (\<lambda>sum val. sum + val * val) 0 draws) else 0)"
  by (simp add: search_similarity_def inv2_def mk_invoice_def demo_parse_def utf16_def Let_def)

lemma sims_a:
  "search_similarity demo_parse (\<lambda>v. []) draws_a (utf16 ''x'') inv1 = 3 / 5"
  "search_similarity demo_parse (\<lambda>v. []) draws_a (utf16 ''x'') inv2 = 4 / 5"
  by (simp_all add: sim_inv1 sim_inv2 queryNorm_a) (simp_all add: draw_at_def draws_a_def)

lemma sims_b:
  "search_similarity demo_parse (\<lambda>v. []) draws_b (utf16 ''x'') inv1 = 4 / 5"
  "search_similarity demo_parse (\<lambda>v. []) draws_b (utf16 ''x'') inv2 = 3 / 5"
  by (simp_all add: sim_inv1 sim_inv2 queryNorm_b) (simp_all add: draw_at_def draws_b_def)

lemma sims_c:
  "search_similarity demo_parse (\<lambda>v. []) draws_c (utf16 ''x'') inv1 = 4 / 5"
  "search_similarity demo_parse (\<lambda>v. []) draws_c (utf16 ''x'') inv2 = - (3 / 5)"
  by (simp_all add: sim_inv1 sim_inv2 queryNorm_c) (simp_all add: draw_at_def draws_c_def)

lemma query_not_blank: "list_ex (\<lambda>c. \<not> is_space c) (utf16 ''x'')"
  by (simp add: utf16_def is_space_def)

lemma user_findUnique_alice_search:
  "user_findUnique search_db (utf16 ''a@x.io'') = Inr (Some alice)"
  using find_alice by (simp add: user_findUnique_def prisma_def search_db_def demo_db_def)

lemma demo_search_eval:
  "demo_search draws =
     map inv_id (map fst (take 10 (sort_key (\<lambda>item. - snd item)
       (filter (\<lambda>item. snd item > 0.1)
          [(inv5, 0),
           (inv2, search_similarity demo_parse (\<lambda>v. []) draws (utf16 ''x'') inv2),
           (inv1, search_similarity demo_parse (\<lambda>v. []) draws (utf16 ''x'') inv1)]))))"
proof -
  have e: "utf16 ''a@x.io'' \<noteq> []" by (simp add: utf16_def)
  have up: "db_error search_db = None" by (simp add: search_db_def demo_db_def)
  show ?thesis
    unfolding demo_search_def GET_search_def
    using e up
    by (simp add: user_findUnique_alice_search search_candidates query_not_blank sim_inv5
        invoiceSearch_create_def prisma_def Let_def format_result_def comp_def
        del: sort_key_simps)
       (simp add: enumerate_eq_zip comp_def map_fst_zip_take format_result_def
          split_beta)
qed


text \<open>
  C10. The query embedding is a sequence of random draws that the query text does not
  determine, and the reply depends on it: for one signed-in user, one database and the
  one query \<open>x\<close>, three admissible sequences of draws give the same two invoices in
  opposite orders, and a different set of invoices.
\<close>

theorem search_result_varies_with_draws:
  "valid_draws draws_a \<and> valid_draws draws_b \<and> valid_draws draws_c
   \<and> demo_search draws_a = [utf16 ''i2'', utf16 ''i1'']
   \<and> demo_search draws_b = [utf16 ''i1'', utf16 ''i2'']
   \<and> demo_search draws_c = [utf16 ''i1'']
   \<and> set (demo_search draws_a) = set (demo_search draws_b)
   \<and> demo_search draws_a \<noteq> demo_search draws_b
   \<and> set (demo_search draws_a) \<noteq> set (demo_search draws_c)"
proof -
  have a: "demo_search draws_a = [utf16 ''i2'', utf16 ''i1'']"
    by (simp add: demo_search_eval sims_a) (simp add: inv1_def inv2_def mk_invoice_def)
  have b: "demo_search draws_b = [utf16 ''i1'', utf16 ''i2'']"
    by (simp add: demo_search_eval sims_b) (simp add: inv1_def inv2_def mk_invoice_def)
  have c: "demo_search draws_c = [utf16 ''i1'']"
    by (simp add: demo_search_eval sims_c) (simp add: inv1_def inv2_def mk_invoice_def)
  have ne: "utf16 ''i2'' \<noteq> utf16 ''i1''"
    by (simp add: utf16_def)
  show ?thesis
    unfolding a b c using valid_draws_abc ne by auto
qed


subsection \<open>Upload of an encrypted PDF\<close>

lemma str_includes_prefix: "str_includes (needle @ ys) needle"
proof (cases "needle @ ys")
  case Nil
  then show ?thesis by simp
next
  case (Cons a list)
  have "take (length needle) (needle @ ys) = needle" by simp
  with Cons show ?thesis by simp
qed

lemma str_includes_middle: "str_includes (xs @ needle @ ys) needle"
proof (induction xs)
  case Nil
  show ?case by (simp add: str_includes_prefix)
next
  case (Cons x xs)
  then show ?case by simp
qed

lemma utf16_append: "utf16 (a @ b) = utf16 a @ utf16 b"
  by (simp add: utf16_def)

lemma encrypted_error_text:
  "str_includes encrypted_error (utf16 ''encrypted or password-protected'')"
proof -
  have "encrypted_error =
      utf16 ''PDF file is '' @ utf16 ''encrypted or password-protected'' @ []"
    by (simp add: encrypted_error_def utf16_append [symmetric])
  then show ?thesis
    using str_includes_middle [of "utf16 ''PDF file is ''" "utf16 ''encrypted or password-protected''" "[]"]
    by simp
qed

lemma on_failure_encrypted:
  assumes "str_includes m (utf16 ''PDF_ENCRYPTED'')"
  shows "on_failure m iid d =
        (JsonError 400 \<lparr> ue_error = encrypted_error, ue_details = Some encrypted_details,
                          ue_id = Some iid, ue_status = Some (utf16 ''error'') \<rparr>,
         invoice_update d iid (\<lambda>i. i\<lparr> inv_status := utf16 ''error'',
           extractedData := JObj [(utf16 ''error'', JStr encrypted_error),
                                  (utf16 ''details'', JStr encrypted_details)] \<rparr>))"
  unfolding on_failure_def using assms by (simp only: if_True)

lemma post_step:
  assumes email: "e \<noteq> []"
    and fu: "user_findUnique d e = Inr (Some u)"
    and failed: "arrayBuffer_error w = Some m \<or>
                 (arrayBuffer_error w = None \<and> service_result to_text stringify w = Inl m)"
  shows "POST_upload to_text stringify w iid now (Some e) (Some f) d =
     on_failure m iid (d\<lparr>invoices := invoices d @ [\<lparr> inv_id = iid, inv_userId = user_id u,
                             inv_filename = file_name f, inv_status = utf16 ''processing'',
                             extractedData = JObj
                               [(utf16 ''message'', JStr (utf16
                                   ''Invoice uploaded, sending to AI processing service...'')),
                                (utf16 ''file_size'', JNum (real (file_size f))),
                                (utf16 ''mime_type'', JStr (file_type f))],
                             classifiedData = JNull, embeddings = None, createdAt = now \<rparr>]\<rparr>)"
proof -
  from failed show ?thesis
  proof
    assume "arrayBuffer_error w = Some m"
    then show ?thesis
      using email fu by (simp add: POST_upload_def Let_def)
  next
    assume "arrayBuffer_error w = None \<and> service_result to_text stringify w = Inl m"
    then show ?thesis
      using email fu by (simp add: POST_upload_def Let_def)
  qed
qed


lemma created_is_updated:
  "inv_id c = iid \<Longrightarrow>
     g c \<in> set (invoices (invoice_update (d\<lparr>invoices := invoices d @ [c]\<rparr>) iid g))"
  by (simp add: invoice_update_def)

lemma all_updated:
  assumes "\<And>i. inv_status (g i) = st \<and> get_prop (extractedData (g i)) k = Some v"
  shows "\<forall>i \<in> set (invoices (invoice_update d iid g)).
           inv_id i = iid \<longrightarrow> inv_status i = st \<and> get_prop (extractedData i) k = Some v"
proof
  fix i
  assume "i \<in> set (invoices (invoice_update d iid g))"
  then obtain x where x: "x \<in> set (invoices d)" "i = (if inv_id x = iid then g x else x)"
    by (auto simp add: invoice_update_def)
  show "inv_id i = iid \<longrightarrow> inv_status i = st \<and> get_prop (extractedData i) k = Some v"
  proof (cases "inv_id x = iid")
    case True
    with x assms [of x] show ?thesis by simp
  next
    case False
    with x show ?thesis by simp
  qed
qed

text \<open>
  An error that reaches either \<open>catch\<close> of the handler with \<open>PDF_ENCRYPTED\<close> in its
  message, whether thrown while reading the file or by the inner block, is answered with
  status 400 and the text \<open>PDF file is encrypted or password-protected\<close>, which is also
  stored on the record. A reply of the service that is not ok takes this path.
\<close>

lemma handlers_answer_encrypted:
  assumes email: "e \<noteq> []"
    and up: "db_error d = None"
    and found: "find (\<lambda>u. user_email u = e) (users d) = Some u"
    and failed: "arrayBuffer_error w = Some m \<or>
                 (arrayBuffer_error w = None \<and> service_result to_text stringify w = Inl m)"
    and enc: "str_includes m (utf16 ''PDF_ENCRYPTED'')"
  shows "\<exists>d'. POST_upload to_text stringify w iid now (Some e) (Some f) d =
             (JsonError 400 \<lparr> ue_error = encrypted_error, ue_details = Some encrypted_details,
                               ue_id = Some iid, ue_status = Some (utf16 ''error'') \<rparr>, d')
           \<and> status_of (fst (POST_upload to_text stringify w iid now (Some e) (Some f) d)) = 400
           \<and> str_includes encrypted_error (utf16 ''encrypted or password-protected'')
           \<and> (\<exists>i \<in> set (invoices d'). inv_id i = iid \<and> inv_userId i = user_id u)
           \<and> (\<forall>i \<in> set (invoices d'). inv_id i = iid \<longrightarrow>
                  inv_status i = utf16 ''error''
                  \<and> get_prop (extractedData i) (utf16 ''error'') = Some (JStr encrypted_error))"
proof -
  define created where "created = \<lparr> inv_id = iid, inv_userId = user_id u,
                             inv_filename = file_name f, inv_status = utf16 ''processing'',
                             extractedData = JObj
                               [(utf16 ''message'', JStr (utf16
                                   ''Invoice uploaded, sending to AI processing service...'')),
                                (utf16 ''file_size'', JNum (real (file_size f))),
                                (utf16 ''mime_type'', JStr (file_type f))],
                             classifiedData = JNull, embeddings = None, createdAt = now \<rparr>"
  define g where "g = (\<lambda>i::invoice. i\<lparr> inv_status := utf16 ''error'',
           extractedData := JObj [(utf16 ''error'', JStr encrypted_error),
                                  (utf16 ''details'', JStr encrypted_details)] \<rparr>)"
  define d1 where "d1 = d\<lparr>invoices := invoices d @ [created]\<rparr>"
  define d' where "d' = invoice_update d1 iid g"
  have fu: "user_findUnique d e = Inr (Some u)"
    using up found by (simp add: user_findUnique_def prisma_def)
  have post: "POST_upload to_text stringify w iid now (Some e) (Some f) d = on_failure m iid d1"
    unfolding d1_def created_def by (rule post_step [OF email fu failed])
  have eq: "POST_upload to_text stringify w iid now (Some e) (Some f) d =
       (JsonError 400 \<lparr> ue_error = encrypted_error, ue_details = Some encrypted_details,
                               ue_id = Some iid, ue_status = Some (utf16 ''error'') \<rparr>, d')"
    unfolding post d'_def g_def by (rule on_failure_encrypted [OF enc])
  have st: "status_of (fst (POST_upload to_text stringify w iid now (Some e) (Some f) d)) = 400"
    unfolding eq by simp
  have cid: "inv_id created = iid" "inv_userId created = user_id u"
    by (simp_all add: created_def)
  have gc: "inv_id (g created) = iid \<and> inv_userId (g created) = user_id u"
    using cid by (simp add: g_def)
  have "g created \<in> set (invoices d')"
    unfolding d'_def d1_def by (rule created_is_updated [OF cid(1)])
  with gc have ex: "\<exists>i \<in> set (invoices d'). inv_id i = iid \<and> inv_userId i = user_id u"
    by blast
  have gp: "\<And>i. inv_status (g i) = utf16 ''error'' \<and>
      get_prop (extractedData (g i)) (utf16 ''error'') = Some (JStr encrypted_error)"
    by (simp add: g_def)
  have all: "\<forall>i \<in> set (invoices d'). inv_id i = iid \<longrightarrow>
                  inv_status i = utf16 ''error''
                  \<and> get_prop (extractedData i) (utf16 ''error'') = Some (JStr encrypted_error)"
    unfolding d'_def by (rule all_updated [OF gp])
  from eq st encrypted_error_text ex all show ?thesis
    by (intro exI [of _ d'] conjI)
qed


lemma locked_message_thrown:
  "arrayBuffer_error locked_world = None \<and> service_result to_text stringify locked_world = Inl locked_message"
  by (simp add: service_result_def locked_world_def locked_reply_def locked_message_def)

lemma locked_message_encrypted: "str_includes locked_message (utf16 ''PDF_ENCRYPTED'')"
  using str_includes_middle [of "utf16 ''Python service returned '' @ utf16 ''400'' @ utf16 '': '' @
     utf16 ''Bad Request'' @ utf16 '' - ''" "utf16 ''PDF_ENCRYPTED''" "utf16 '': password required''"]
  by (simp add: locked_message_def)

lemma not_ok_reply_answers_400:
  "\<exists>d'. POST_upload (\<lambda>v. []) (\<lambda>v. []) locked_world (utf16 ''i9'') 9 (Some (utf16 ''a@x.io''))
           (Some demo_file) demo_db =
         (JsonError 400 \<lparr> ue_error = encrypted_error, ue_details = Some encrypted_details,
                           ue_id = Some (utf16 ''i9''), ue_status = Some (utf16 ''error'') \<rparr>, d')
       \<and> (\<exists>i \<in> set (invoices d'). inv_id i = utf16 ''i9'' \<and> inv_status i = utf16 ''error''
              \<and> get_prop (extractedData i) (utf16 ''error'') = Some (JStr encrypted_error))"
proof -
  have failed: "arrayBuffer_error locked_world = Some locked_message \<or>
                 (arrayBuffer_error locked_world = None \<and>
                  service_result (\<lambda>v. []) (\<lambda>v. []) locked_world = Inl locked_message)"
    using locked_message_thrown [of "\<lambda>v. []" "\<lambda>v. []"] by blast
  from handlers_answer_encrypted [OF utf16_nonempty demo_db_up find_alice failed
      locked_message_encrypted, of "utf16 ''i9''" 9 demo_file]
  show ?thesis by blast
qed




text \<open>
  An error thrown while the JSON reply is read never reaches the handlers with its own
  message: the \<open>catch\<close> around that block replaces it by a fixed message, which does
  not contain \<open>PDF_ENCRYPTED\<close>.
\<close>

lemma json_error_reply_replaced:
  assumes "fetched w = Inr r" "resp_ok r" "\<not> is_spreadsheet (resp_contentType r)"
    and "read_json_reply to_text stringify r = Inl m"
  shows "service_result to_text stringify w = Inl invalid_response"
  using assms by (simp add: service_result_def)

lemma invalid_response_not_encrypted:
  "\<not> str_includes invalid_response (utf16 ''PDF_ENCRYPTED'')"
  by (simp add: invalid_response_def utf16_def)

lemma on_failure_other:
  assumes "\<not> str_includes m (utf16 ''PDF_ENCRYPTED'')"
  shows "on_failure m iid d =
        (JsonError 500 \<lparr> ue_error = utf16 ''Processing failed'', ue_details = Some m,
                          ue_id = Some iid, ue_status = Some (utf16 ''error'') \<rparr>,
         invoice_update d iid (\<lambda>i. i\<lparr> inv_status := utf16 ''error'',
           extractedData := JObj [(utf16 ''error'', JStr (utf16 ''Processing failed'')),
                                  (utf16 ''details'', JStr m)] \<rparr>))"
  unfolding on_failure_def using assms by (simp only: if_False)

lemma json_locked_thrown:
  "read_json_reply to_text stringify json_locked_reply =
     Inl (utf16 ''PDF_ENCRYPTED'' @ utf16 '': password required'')"
proof -
  have "utf16 ''PDF_ENCRYPTED'' \<noteq> []" by (simp add: utf16_def)
  then show ?thesis
    by (simp add: read_json_reply_def json_locked_reply_def error_message_def)
qed

lemma json_is_no_spreadsheet: "\<not> is_spreadsheet (Some (utf16 ''application/json''))"
  by (simp add: is_spreadsheet_def utf16_def)

lemma json_locked_replaced:
  "service_result to_text stringify json_locked_world = Inl invalid_response"
proof -
  have "fetched json_locked_world = Inr json_locked_reply"
    by (simp add: json_locked_world_def)
  moreover have "resp_ok json_locked_reply"
    by (simp add: json_locked_reply_def)
  moreover have "\<not> is_spreadsheet (resp_contentType json_locked_reply)"
    using json_is_no_spreadsheet by (simp add: json_locked_reply_def)
  ultimately show ?thesis
    using json_locked_thrown by (rule json_error_reply_replaced)
qed

lemma processing_failed_text:
  "\<not> str_includes (utf16 ''Processing failed'') (utf16 ''encrypted or password-protected'')"
  by (simp add: utf16_def)

text \<open>
  C2 fails on the code. The parsing service answers an upload with status 200 and the
  JSON body \<open>{error: "PDF_ENCRYPTED: password required"}\<close>. The block that reads the
  reply throws an error with that message, which contains \<open>PDF_ENCRYPTED\<close>; the
  \<open>catch\<close> around it replaces the error, so the handler does not see the text. The
  record is left with status \<open>error\<close> and the error text \<open>Processing failed\<close>, which
  does not contain \<open>encrypted or password-protected\<close>, and the reply has status 500.
\<close>

theorem upload_json_encrypted_error_answers_500:
  "read_json_reply (\<lambda>v. []) (\<lambda>v. []) json_locked_reply =
     Inl (utf16 ''PDF_ENCRYPTED'' @ utf16 '': password required'')
   \<and> str_includes (utf16 ''PDF_ENCRYPTED'' @ utf16 '': password required'')
         (utf16 ''PDF_ENCRYPTED'')
   \<and> (\<exists>d'. POST_upload (\<lambda>v. []) (\<lambda>v. []) json_locked_world (utf16 ''i9'') 9
              (Some (utf16 ''a@x.io'')) (Some demo_file) demo_db =
            (JsonError 500 \<lparr> ue_error = utf16 ''Processing failed'',
                              ue_details = Some invalid_response,
                              ue_id = Some (utf16 ''i9''),
                              ue_status = Some (utf16 ''error'') \<rparr>, d')
          \<and> status_of (fst (POST_upload (\<lambda>v. []) (\<lambda>v. []) json_locked_world (utf16 ''i9'') 9
                (Some (utf16 ''a@x.io'')) (Some demo_file) demo_db)) = 500
          \<and> (\<exists>i \<in> set (invoices d'). inv_id i = utf16 ''i9''
                 \<and> inv_status i = utf16 ''error''
                 \<and> get_prop (extractedData i) (utf16 ''error'') =
                     Some (JStr (utf16 ''Processing failed''))))
   \<and> \<not> str_includes (utf16 ''Processing failed'') (utf16 ''encrypted or password-protected'')"
proof -
  define created where "created = \<lparr> inv_id = utf16 ''i9'', inv_userId = user_id alice,
                             inv_filename = file_name demo_file,
                             inv_status = utf16 ''processing'',
                             extractedData = JObj
                               [(utf16 ''message'', JStr (utf16
                                   ''Invoice uploaded, sending to AI processing service...'')),
                                (utf16 ''file_size'', JNum (real (file_size demo_file))),
                                (utf16 ''mime_type'', JStr (file_type demo_file))],
                             classifiedData = JNull, embeddings = None, createdAt = 9 \<rparr>"
  define g where "g = (\<lambda>i::invoice. i\<lparr> inv_status := utf16 ''error'',
           extractedData := JObj [(utf16 ''error'', JStr (utf16 ''Processing failed'')),
                                  (utf16 ''details'', JStr invalid_response)] \<rparr>)"
  define d1 where "d1 = demo_db\<lparr>invoices := invoices demo_db @ [created]\<rparr>"
  define d' where "d' = invoice_update d1 (utf16 ''i9'') g"
  have fu: "user_findUnique demo_db (utf16 ''a@x.io'') = Inr (Some alice)"
    using find_alice demo_db_up by (simp add: user_findUnique_def prisma_def)
  have failed: "arrayBuffer_error json_locked_world = Some invalid_response \<or>
      (arrayBuffer_error json_locked_world = None \<and>
       service_result (\<lambda>v. []) (\<lambda>v. []) json_locked_world = Inl invalid_response)"
    using json_locked_replaced [of "\<lambda>v. []" "\<lambda>v. []"] by (simp add: json_locked_world_def)
  have post: "POST_upload (\<lambda>v. []) (\<lambda>v. []) json_locked_world (utf16 ''i9'') 9
              (Some (utf16 ''a@x.io'')) (Some demo_file) demo_db =
            on_failure invalid_response (utf16 ''i9'') d1"
    unfolding d1_def created_def by (rule post_step [OF utf16_nonempty fu failed])
  have eq: "POST_upload (\<lambda>v. []) (\<lambda>v. []) json_locked_world (utf16 ''i9'') 9
              (Some (utf16 ''a@x.io'')) (Some demo_file) demo_db =
            (JsonError 500 \<lparr> ue_error = utf16 ''Processing failed'',
                              ue_details = Some invalid_response,
                              ue_id = Some (utf16 ''i9''),
                              ue_status = Some (utf16 ''error'') \<rparr>, d')"
    unfolding post d'_def g_def by (rule on_failure_other [OF invalid_response_not_encrypted])
  have st: "status_of (fst (POST_upload (\<lambda>v. []) (\<lambda>v. []) json_locked_world (utf16 ''i9'') 9
                (Some (utf16 ''a@x.io'')) (Some demo_file) demo_db)) = 500"
    unfolding eq by simp
  have cid: "inv_id created = utf16 ''i9''"
    by (simp add: created_def)
  have gc: "inv_id (g created) = utf16 ''i9'' \<and> inv_status (g created) = utf16 ''error''
      \<and> get_prop (extractedData (g created)) (utf16 ''error'') =
          Some (JStr (utf16 ''Processing failed''))"
    using cid by (simp add: g_def)
  have "g created \<in> set (invoices d')"
    unfolding d'_def d1_def by (rule created_is_updated [OF cid])
  with gc have ex: "\<exists>i \<in> set (invoices d'). inv_id i = utf16 ''i9''
                 \<and> inv_status i = utf16 ''error''
                 \<and> get_prop (extractedData i) (utf16 ''error'') =
                     Some (JStr (utf16 ''Processing failed''))"
    by blast
  have thrown: "read_json_reply (\<lambda>v. []) (\<lambda>v. []) json_locked_reply =
     Inl (utf16 ''PDF_ENCRYPTED'' @ utf16 '': password required'')"
    by (rule json_locked_thrown)
  have inc: "str_includes (utf16 ''PDF_ENCRYPTED'' @ utf16 '': password required'')
         (utf16 ''PDF_ENCRYPTED'')"
    by (rule str_includes_prefix)
  from eq st ex have reply: "\<exists>d'. POST_upload (\<lambda>v. []) (\<lambda>v. []) json_locked_world (utf16 ''i9'') 9
              (Some (utf16 ''a@x.io'')) (Some demo_file) demo_db =
            (JsonError 500 \<lparr> ue_error = utf16 ''Processing failed'',
                              ue_details = Some invalid_response,
                              ue_id = Some (utf16 ''i9''),
                              ue_status = Some (utf16 ''error'') \<rparr>, d')
          \<and> status_of (fst (POST_upload (\<lambda>v. []) (\<lambda>v. []) json_locked_world (utf16 ''i9'') 9
                (Some (utf16 ''a@x.io'')) (Some demo_file) demo_db)) = 500
          \<and> (\<exists>i \<in> set (invoices d'). inv_id i = utf16 ''i9''
                 \<and> inv_status i = utf16 ''error''
                 \<and> get_prop (extractedData i) (utf16 ''error'') =
                     Some (JStr (utf16 ''Processing failed'')))"
    by (intro exI [of _ d'] conjI)
  from thrown inc reply processing_failed_text show ?thesis
    by (intro conjI)
qed


end
